theory Spec2Isabelle
  imports Complex_Main
begin

section \<open>JavaScript values\<close>

text \<open>
  A JavaScript number is an IEEE double.  The model keeps the three non-finite values
  apart and represents a finite double by the rational it denotes; \<open>-0\<close> and \<open>0\<close>
  are both \<open>Fin 0\<close> (both are falsy and compare equal).
\<close>

datatype jsnum = NaN | PosInf | NegInf | Fin rat

text \<open>
  Rounding to a binary floating-point format (IEEE 754, round to nearest, ties to even):
  the format has \<open>p\<close> significant bits and its smallest positive number is
  \<open>2 ^ qmin\<close>.  The quantum at \<open>x\<close> is \<open>2 ^ (e - p + 1)\<close>, where \<open>2 ^ e \<le> |x| < 2 ^ (e + 1)\<close>,
  and never less than \<open>2 ^ qmin\<close> (the subnormal numbers); the result is the multiple of
  the quantum nearest to \<open>x\<close>.  A double has 53 significant bits and quantum at least
  \<open>2 ^ - 1074\<close>; a single-precision number has 24 and \<open>2 ^ - 149\<close>.  The largest
  finite number of the format is not modelled: the numbers rounded here are scores
  between 0 and 100, their sums and their means.
\<close>

function bitLength :: "int \<Rightarrow> int" where
  "bitLength n = (if n \<le> 0 then 0 else 1 + bitLength (n div 2))"
  by pat_completeness auto
termination
  by (relation "measure nat") auto

definition pow2 :: "int \<Rightarrow> rat" where
  "pow2 e = (if 0 \<le> e then 2 ^ nat e else 1 / 2 ^ nat (- e))"

text \<open>The exponent \<open>e\<close> with \<open>2 ^ e \<le> x < 2 ^ (e + 1)\<close>, for a positive \<open>x\<close>.\<close>

definition floorLog2 :: "rat \<Rightarrow> int" where
  "floorLog2 x =
     (case quotient_of x of
        (a, b) \<Rightarrow> (let e = bitLength a - bitLength b in if pow2 e \<le> x then e else e - 1))"

definition roundTiesEven :: "rat \<Rightarrow> int" where
  "roundTiesEven x =
     (let f = \<lfloor>x\<rfloor>; r = x - of_int f
      in if r < 1 / 2 then f else if 1 / 2 < r then f + 1 else if even f then f else f + 1)"

definition roundBinary :: "int \<Rightarrow> int \<Rightarrow> rat \<Rightarrow> rat" where
  "roundBinary p qmin x =
     (if x = 0 then 0
      else (let q = max (floorLog2 \<bar>x\<bar> - p + 1) qmin
            in of_int (roundTiesEven (x / pow2 q)) * pow2 q))"

definition float64 :: "rat \<Rightarrow> rat" where
  "float64 x = roundBinary 53 (- 1074) x"

definition float32 :: "rat \<Rightarrow> rat" where
  "float32 x = roundBinary 24 (- 149) x"

text \<open>
  The values \<open>JSON.parse\<close> can return and \<open>res.json\<close> can send, together with
  \<open>undefined\<close> (the value of a missing property).  An object is the list of its
  key/value pairs.
\<close>

datatype jsval =
    JUndefined
  | JNull
  | JBool bool
  | JNum jsnum
  | JStr string
  | JArr "jsval list"
  | JObj "(string \<times> jsval) list"

text \<open>
  An HTTP response: the status code and the JSON body, or a server-sent event stream.  An
  event carries a fragment of content (\<open>data: {"content": ...}\<close>), an error
  (\<open>data: {"error": ...}\<close>) or the end marker (\<open>data: [DONE]\<close>).
\<close>

datatype event = ContentEvent string | ErrorEvent string | Done

datatype response = Response int jsval | EventStream "event list"

definition message_body :: "string \<Rightarrow> jsval" where
  "message_body m = JObj [(''message'', JStr m)]"

section \<open>The relational store (shared/schema.ts)\<close>

text \<open>
  A calendar date (a \<open>date\<close> column, the string \<open>YYYY-MM-DD\<close> in JavaScript) is
  represented by its day number: the number of days since 1970-01-01.  A time stamp is a
  number of milliseconds since 1970-01-01T00:00:00Z.
\<close>

type_synonym date = int
type_synonym timestamp = int

record User =
  u_id :: int
  u_username :: string
  u_email :: string
  u_password :: string
  u_fullName :: string
  u_occupation :: string
  u_goals :: string
  u_createdAt :: timestamp

record ProductivityEntry =
  e_id :: int
  e_userId :: int
  e_title :: string
  e_category :: string
  e_duration :: int
  e_completed :: bool
  e_notes :: "string option"
  e_date :: date
  e_createdAt :: timestamp

text \<open>
  The score columns are \<open>real\<close> (single precision); the values the code writes
  there are always finite (see \<open>clampScore\<close>), and a row holds the rational that the
  stored single-precision number denotes.  \<open>ds_aiInsight\<close> is the value handed to the
  driver for the \<open>ai_insight\<close> column.
\<close>

record DailyScore =
  ds_id :: int
  ds_userId :: int
  ds_date :: date
  ds_score :: rat
  ds_aiInsight :: jsval
  ds_createdAt :: timestamp

record WeeklyScore =
  ws_id :: int
  ws_userId :: int
  ws_weekStart :: date
  ws_weekEnd :: date
  ws_avgScore :: rat
  ws_totalEntries :: int
  ws_createdAt :: timestamp

record ChatMessage =
  m_id :: int
  m_userId :: int
  m_role :: string
  m_content :: string
  m_createdAt :: timestamp

text \<open>
  The five tables, each with the next value of its \<open>serial\<close> sequence.  Rows are kept
  in insertion order.
\<close>

record db =
  users :: "User list"
  productivityEntries :: "ProductivityEntry list"
  dailyScores :: "DailyScore list"
  weeklyScores :: "WeeklyScore list"
  chatMessages :: "ChatMessage list"
  users_seq :: int
  productivityEntries_seq :: int
  dailyScores_seq :: int
  weeklyScores_seq :: int
  chatMessages_seq :: int

definition emptyDb :: db where
  "emptyDb = \<lparr> users = [], productivityEntries = [], dailyScores = [], weeklyScores = [],
     chatMessages = [], users_seq = 1, productivityEntries_seq = 1, dailyScores_seq = 1,
     weeklyScores_seq = 1, chatMessages_seq = 1 \<rparr>"

section \<open>Persistence accessors (server/storage.ts)\<close>

subsection \<open>Entries\<close>

text \<open>\<open>ORDER BY created_at DESC\<close>, ties kept in table order.\<close>

definition orderByDesc :: "('a \<Rightarrow> int) \<Rightarrow> 'a list \<Rightarrow> 'a list" where
  "orderByDesc f xs = sort_key (\<lambda>x. - f x) xs"

definition getEntriesByDate :: "db \<Rightarrow> int \<Rightarrow> date \<Rightarrow> ProductivityEntry list" where
  "getEntriesByDate d userId dt =
     orderByDesc e_createdAt
       (filter (\<lambda>e. e_userId e = userId \<and> e_date e = dt) (productivityEntries d))"

definition getEntriesByDateRange :: "db \<Rightarrow> int \<Rightarrow> date \<Rightarrow> date \<Rightarrow> ProductivityEntry list" where
  "getEntriesByDateRange d userId startDate endDate =
     orderByDesc e_createdAt
       (filter (\<lambda>e. e_userId e = userId \<and> startDate \<le> e_date e \<and> e_date e \<le> endDate)
          (productivityEntries d))"




subsection \<open>Daily and weekly scores\<close>

text \<open>
  \<open>saveDailyScore\<close>: select the rows of the (user, date) pair; if there is one, update
  score and insight of every such row and return the first row updated; otherwise insert
  a row.  \<open>now\<close> is \<open>CURRENT_TIMESTAMP\<close>, the default of \<open>created_at\<close>.  The \<open>hd\<close> is
  taken of a list that is not empty: the rows updated are the rows selected.  The
  argument \<open>score\<close> is the number as the \<open>real\<close> column takes it: the caller passes
  the number rounded to single precision (\<open>realColumn\<close> below).
\<close>

definition saveDailyScore ::
  "db \<Rightarrow> timestamp \<Rightarrow> int \<Rightarrow> date \<Rightarrow> rat \<Rightarrow> jsval \<Rightarrow> DailyScore \<times> db" where
  "saveDailyScore d now userId dt score aiInsight =
     (let existing = filter (\<lambda>r. ds_userId r = userId \<and> ds_date r = dt) (dailyScores d)
      in if length existing > 0
         then (let rows = map (\<lambda>r. if ds_userId r = userId \<and> ds_date r = dt
                                     then r\<lparr>ds_score := score, ds_aiInsight := aiInsight\<rparr>
                                     else r) (dailyScores d);
                   updated = hd (filter (\<lambda>r. ds_userId r = userId \<and> ds_date r = dt) rows)
               in (updated, d\<lparr>dailyScores := rows\<rparr>))
         else (let created = \<lparr> ds_id = dailyScores_seq d, ds_userId = userId, ds_date = dt,
                                 ds_score = score, ds_aiInsight = aiInsight,
                                 ds_createdAt = now \<rparr>
               in (created, d\<lparr>dailyScores := dailyScores d @ [created],
                              dailyScores_seq := dailyScores_seq d + 1\<rparr>)))"

definition getDailyScores :: "db \<Rightarrow> int \<Rightarrow> date \<Rightarrow> date \<Rightarrow> DailyScore list" where
  "getDailyScores d userId startDate endDate =
     orderByDesc ds_date
       (filter (\<lambda>r. ds_userId r = userId \<and> startDate \<le> ds_date r \<and> ds_date r \<le> endDate)
          (dailyScores d))"

text \<open>
  \<open>saveWeeklyScore\<close>: the same pattern on (user, week start); the update sets
  \<open>avgScore\<close> and \<open>totalEntries\<close> only.  The argument \<open>avgScore\<close> is the number as
  the \<open>real\<close> column takes it.
\<close>

definition saveWeeklyScore ::
  "db \<Rightarrow> timestamp \<Rightarrow> int \<Rightarrow> date \<Rightarrow> date \<Rightarrow> rat \<Rightarrow> int \<Rightarrow> WeeklyScore \<times> db" where
  "saveWeeklyScore d now userId weekStart weekEnd avgScore totalEntries =
     (let existing = filter (\<lambda>r. ws_userId r = userId \<and> ws_weekStart r = weekStart)
                       (weeklyScores d)
      in if length existing > 0
         then (let rows = map (\<lambda>r. if ws_userId r = userId \<and> ws_weekStart r = weekStart
                                     then r\<lparr>ws_avgScore := avgScore,
                                            ws_totalEntries := totalEntries\<rparr>
                                     else r) (weeklyScores d);
                   updated = hd (filter (\<lambda>r. ws_userId r = userId \<and> ws_weekStart r = weekStart)
                                   rows)
               in (updated, d\<lparr>weeklyScores := rows\<rparr>))
         else (let created = \<lparr> ws_id = weeklyScores_seq d, ws_userId = userId,
                                 ws_weekStart = weekStart, ws_weekEnd = weekEnd,
                                 ws_avgScore = avgScore, ws_totalEntries = totalEntries,
                                 ws_createdAt = now \<rparr>
               in (created, d\<lparr>weeklyScores := weeklyScores d @ [created],
                              weeklyScores_seq := weeklyScores_seq d + 1\<rparr>)))"

section \<open>Dates (the built-in \<open>Date\<close> of the JavaScript runtime)\<close>

text \<open>
  The abstract operations of ECMA-262, section 21.4.1, on time values (milliseconds
  since the epoch, here unbounded integers; \<open>TimeClip\<close> is not modelled).  They are what
  the methods \<open>getDay\<close>, \<open>getDate\<close>, \<open>setDate\<close>, \<open>setHours\<close> and \<open>toISOString\<close>
  that \<open>getWeekBounds\<close> calls are defined by.
\<close>

definition msPerDay :: int where
  "msPerDay = 86400000"

definition Day :: "timestamp \<Rightarrow> int" where
  "Day t = t div msPerDay"

definition TimeWithinDay :: "timestamp \<Rightarrow> int" where
  "TimeWithinDay t = t mod msPerDay"

definition DaysInYear :: "int \<Rightarrow> int" where
  "DaysInYear y =
     (if y mod 4 \<noteq> 0 then 365 else if y mod 100 \<noteq> 0 then 366
      else if y mod 400 \<noteq> 0 then 365 else 366)"

definition DayFromYear :: "int \<Rightarrow> int" where
  "DayFromYear y =
     365 * (y - 1970) + (y - 1969) div 4 - (y - 1901) div 100 + (y - 1601) div 400"

text \<open>
  \<open>YearFromTime t\<close> is the largest \<open>y\<close> with \<open>DayFromYear y \<le> Day t\<close>; it is computed
  from an estimate (a year has 146097/400 days on average) that is off by one at most
  (\<open>YearFromTime_spec\<close> and \<open>YearFromTime_largest\<close> below).
\<close>

definition YearFromTime :: "timestamp \<Rightarrow> int" where
  "YearFromTime t =
     (let y = 1970 + (400 * Day t) div 146097
      in if Day t < DayFromYear y then y - 1
         else if DayFromYear (y + 1) \<le> Day t then y + 1
         else y)"

definition InLeapYear :: "timestamp \<Rightarrow> int" where
  "InLeapYear t = (if DaysInYear (YearFromTime t) = 366 then 1 else 0)"

definition DayWithinYear :: "timestamp \<Rightarrow> int" where
  "DayWithinYear t = Day t - DayFromYear (YearFromTime t)"

definition MonthFromTime :: "timestamp \<Rightarrow> int" where
  "MonthFromTime t =
     (let dwy = DayWithinYear t; l = InLeapYear t
      in if dwy < 31 then 0
         else if dwy < 59 + l then 1
         else if dwy < 90 + l then 2
         else if dwy < 120 + l then 3
         else if dwy < 151 + l then 4
         else if dwy < 181 + l then 5
         else if dwy < 212 + l then 6
         else if dwy < 243 + l then 7
         else if dwy < 273 + l then 8
         else if dwy < 304 + l then 9
         else if dwy < 334 + l then 10
         else 11)"

text \<open>The day within the year on which month \<open>m\<close> (0 to 11) starts; \<open>l\<close> is 1 in a leap year.\<close>

definition monthStart :: "int \<Rightarrow> int \<Rightarrow> int" where
  "monthStart l m =
     (if m = 0 then 0 else if m = 1 then 31 else if m = 2 then 59 + l
      else if m = 3 then 90 + l else if m = 4 then 120 + l else if m = 5 then 151 + l
      else if m = 6 then 181 + l else if m = 7 then 212 + l else if m = 8 then 243 + l
      else if m = 9 then 273 + l else if m = 10 then 304 + l else 334 + l)"

definition DateFromTime :: "timestamp \<Rightarrow> int" where
  "DateFromTime t = DayWithinYear t - monthStart (InLeapYear t) (MonthFromTime t) + 1"

definition WeekDay :: "timestamp \<Rightarrow> int" where
  "WeekDay t = (Day t + 4) mod 7"

text \<open>
  \<open>MakeDay year month date\<close>: the day number of the first day of the month, plus
  \<open>date - 1\<close>; a month outside 0 to 11 carries into the year.
\<close>

definition MakeDay :: "int \<Rightarrow> int \<Rightarrow> int \<Rightarrow> int" where
  "MakeDay year month dt =
     (let ym = year + month div 12; mn = month mod 12
      in DayFromYear ym + monthStart (if DaysInYear ym = 366 then 1 else 0) mn + dt - 1)"

definition MakeDate :: "int \<Rightarrow> int \<Rightarrow> timestamp" where
  "MakeDate day time = day * msPerDay + time"

text \<open>
  The time zone of the process is a parameter of the environment: the local time zone
  adjustment \<open>LocalTZA(t, isUTC)\<close> of ECMA-262, in milliseconds east of UTC.  With
  \<open>isUTC\<close> true, \<open>t\<close> is a UTC time value and the result is the offset in force at that
  moment; with \<open>isUTC\<close> false, \<open>t\<close> is a local time value.  The offset of a zone with
  daylight saving time changes with \<open>t\<close>; \<open>fixedZone tza\<close> is a zone whose offset never
  changes.
\<close>

type_synonym zone = "timestamp \<Rightarrow> bool \<Rightarrow> int"

definition fixedZone :: "int \<Rightarrow> zone" where
  "fixedZone tza = (\<lambda>t isUTC. tza)"

definition LocalTime :: "zone \<Rightarrow> timestamp \<Rightarrow> timestamp" where
  "LocalTime z t = t + z t True"

definition UTC :: "zone \<Rightarrow> timestamp \<Rightarrow> timestamp" where
  "UTC z t = t - z t False"

definition getDay :: "zone \<Rightarrow> timestamp \<Rightarrow> int" where
  "getDay z t = WeekDay (LocalTime z t)"

definition getDate :: "zone \<Rightarrow> timestamp \<Rightarrow> int" where
  "getDate z t = DateFromTime (LocalTime z t)"

definition setDate :: "zone \<Rightarrow> timestamp \<Rightarrow> int \<Rightarrow> timestamp" where
  "setDate z t dt =
     (let lt = LocalTime z t
      in UTC z (MakeDate (MakeDay (YearFromTime lt) (MonthFromTime lt) dt) (TimeWithinDay lt)))"

text \<open>\<open>setHours(0, 0, 0, 0)\<close>: midnight, local time, of the same local day.\<close>

definition setHours0 :: "zone \<Rightarrow> timestamp \<Rightarrow> timestamp" where
  "setHours0 z t = UTC z (MakeDate (Day (LocalTime z t)) 0)"

text \<open>
  \<open>toISOString().split("T")[0]\<close>: the calendar date, in UTC, of the time value.
  \<open>new Date(dateStr)\<close> for a date-only string \<open>YYYY-MM-DD\<close>: midnight UTC of that date.
\<close>

definition isoDate :: "timestamp \<Rightarrow> date" where
  "isoDate t = Day t"

definition parseDate :: "date \<Rightarrow> timestamp" where
  "parseDate dt = dt * msPerDay"

text \<open>The calendar date \<open>y-m-d\<close> (month 1 to 12), to write dates in examples.\<close>

definition ymd :: "int \<Rightarrow> int \<Rightarrow> int \<Rightarrow> date" where
  "ymd y m d = MakeDay y (m - 1) d"

text \<open>The day of the week of a calendar date: 0 is Sunday, 1 is Monday.\<close>

definition weekdayOf :: "date \<Rightarrow> int" where
  "weekdayOf dt = WeekDay (parseDate dt)"

section \<open>Week bounds (server/routes.ts)\<close>

text \<open>
  \<open>getWeekBounds(dateStr?)\<close>.  \<open>now\<close> is the value of \<open>new Date()\<close>; \<open>dateStr\<close> is
  \<open>None\<close> when the argument is omitted.
\<close>

definition getWeekBounds :: "zone \<Rightarrow> timestamp \<Rightarrow> date option \<Rightarrow> date \<times> date" where
  "getWeekBounds z now dateStr =
     (let d = (case dateStr of Some s \<Rightarrow> parseDate s | None \<Rightarrow> now);
          day = getDay z d;
          diff = getDate z d - day + (if day = 0 then - 6 else 1);
          monday = setHours0 z (setDate z d diff);
          sunday = setDate z monday (getDate z monday + 6)
      in (isoDate monday, isoDate sunday))"

section \<open>HTTP surface (server/routes.ts)\<close>

text \<open>
  \<open>requireAuth\<close>: a request whose session holds no user identifier (or the falsy
  identifier 0) is answered with 401 and the handler does not run.
\<close>

definition requireAuth :: "int option \<Rightarrow> 's \<Rightarrow> (int \<Rightarrow> response \<times> 's) \<Rightarrow> response \<times> 's" where
  "requireAuth session s next =
     (case session of
        None \<Rightarrow> (Response 401 (message_body ''Not authenticated''), s)
      | Some userId \<Rightarrow>
          if userId = 0 then (Response 401 (message_body ''Not authenticated''), s)
          else next userId)"


section \<open>JavaScript operators used by the scoring flow\<close>

text \<open>
  The environment of the process: the local time zone adjustment, and the built-ins of the
  runtime that the model does not define (\<open>JSON.parse\<close>, \<open>None\<close> when it throws; the
  conversions between strings and numbers; the text \<open>YYYY-MM-DD\<close> of a calendar date).
\<close>

record env =
  LocalTZA :: zone
  JSON_parse :: "string \<Rightarrow> jsval option"
  StringToNumber :: "string \<Rightarrow> jsnum"
  NumberToString :: "jsnum \<Rightarrow> string"
  dateString :: "date \<Rightarrow> string"

text \<open>\<open>ToBoolean\<close>: the falsy values are undefined, null, false, 0, NaN and the empty string.\<close>

fun truthy :: "jsval \<Rightarrow> bool" where
  "truthy JUndefined = False"
| "truthy JNull = False"
| "truthy (JBool b) = b"
| "truthy (JNum n) = (n \<noteq> NaN \<and> n \<noteq> Fin 0)"
| "truthy (JStr s) = (s \<noteq> [])"
| "truthy (JArr xs) = True"
| "truthy (JObj kvs) = True"

text \<open>\<open>a || b\<close>.\<close>

definition jsOr :: "jsval \<Rightarrow> jsval \<Rightarrow> jsval" where
  "jsOr a b = (if truthy a then a else b)"

fun joinWith :: "string \<Rightarrow> string list \<Rightarrow> string" where
  "joinWith sep [] = []"
| "joinWith sep [x] = x"
| "joinWith sep (x # y # ys) = x @ sep @ joinWith sep (y # ys)"

text \<open>
  \<open>ToString\<close>.  An array is the comma-separated list of its elements, where undefined
  and null elements are empty; a plain object is \<open>[object Object]\<close>.
\<close>

fun ToString :: "env \<Rightarrow> jsval \<Rightarrow> string" where
  "ToString env JUndefined = ''undefined''"
| "ToString env JNull = ''null''"
| "ToString env (JBool b) = (if b then ''true'' else ''false'')"
| "ToString env (JNum n) = NumberToString env n"
| "ToString env (JStr s) = s"
| "ToString env (JArr xs) =
     joinWith '',''
       (map (\<lambda>x. if x = JUndefined \<or> x = JNull then [] else ToString env x) xs)"
| "ToString env (JObj kvs) = ''[object Object]''"

text \<open>\<open>Number(v)\<close>: an array or object is converted through its string.\<close>

fun ToNumber :: "env \<Rightarrow> jsval \<Rightarrow> jsnum" where
  "ToNumber env JUndefined = NaN"
| "ToNumber env JNull = Fin 0"
| "ToNumber env (JBool b) = (if b then Fin 1 else Fin 0)"
| "ToNumber env (JNum n) = n"
| "ToNumber env (JStr s) = StringToNumber env s"
| "ToNumber env (JArr xs) = StringToNumber env (ToString env (JArr xs))"
| "ToNumber env (JObj kvs) = StringToNumber env (ToString env (JObj kvs))"

text \<open>The order of the numbers other than NaN.\<close>

fun jsLess :: "jsnum \<Rightarrow> jsnum \<Rightarrow> bool" where
  "jsLess (Fin a) (Fin b) = (a < b)"
| "jsLess NegInf (Fin b) = True"
| "jsLess NegInf PosInf = True"
| "jsLess (Fin a) PosInf = True"
| "jsLess a b = False"

definition Math_max :: "jsnum \<Rightarrow> jsnum \<Rightarrow> jsnum" where
  "Math_max a b = (if a = NaN \<or> b = NaN then NaN else if jsLess a b then b else a)"

definition Math_min :: "jsnum \<Rightarrow> jsnum \<Rightarrow> jsnum" where
  "Math_min a b = (if a = NaN \<or> b = NaN then NaN else if jsLess b a then b else a)"

text \<open>
  \<open>Math.round\<close> on a finite number: the nearest integer, a tie going up.  The function
  is exact on a double: the result is the integer itself, which a double represents
  (the numbers rounded here are below \<open>2 ^ 53\<close>).
\<close>

definition Math_round :: "rat \<Rightarrow> rat" where
  "Math_round x = of_int \<lfloor>x + 1 / 2\<rfloor>"

text \<open>
  Reading the property \<open>score\<close> or \<open>insight\<close> of a value: a \<open>TypeError\<close> on undefined
  and null; the value of the key in an object (the last one, when the JSON text repeats a
  key; the pairs are in the order of the text); undefined on anything else, since no
  prototype defines these two names.
\<close>

datatype exn = TypeError

fun getProp :: "jsval \<Rightarrow> string \<Rightarrow> exn + jsval" where
  "getProp JUndefined k = Inl TypeError"
| "getProp JNull k = Inl TypeError"
| "getProp (JObj kvs) k = Inr (case map_of (rev kvs) k of None \<Rightarrow> JUndefined | Some v \<Rightarrow> v)"
| "getProp v k = Inr JUndefined"

text \<open>
  \<open>content.match(/\{[\s\S]*\}/)\<close>: the match starts at the first opening brace and, the
  star being greedy, ends at the last closing brace after it; there is no match when no
  closing brace follows an opening one.
\<close>

definition jsonMatch :: "string \<Rightarrow> string option" where
  "jsonMatch content =
     (case dropWhile (\<lambda>c. c \<noteq> CHR ''{'') content of
        [] \<Rightarrow> None
      | c # rest \<Rightarrow>
          (let m = rev (dropWhile (\<lambda>c. c \<noteq> CHR ''}'') (rev rest))
           in if m = [] then None else Some (c # m)))"


section \<open>Daily scoring (POST /api/score/daily)\<close>

definition getUserById :: "db \<Rightarrow> int \<Rightarrow> User option" where
  "getUserById d i = find (\<lambda>u. u_id u = i) (users d)"

definition nl :: string where
  "nl = [CHR 0x0A]"

text \<open>\<open>${user?.field}\<close> in a template: the text \<open>undefined\<close> when there is no user.\<close>

definition userField :: "(User \<Rightarrow> string) \<Rightarrow> User option \<Rightarrow> string" where
  "userField f user = (case user of None \<Rightarrow> ''undefined'' | Some u \<Rightarrow> f u)"

definition showInt :: "env \<Rightarrow> int \<Rightarrow> string" where
  "showInt env n = NumberToString env (Fin (of_int n))"

definition entryLine :: "env \<Rightarrow> ProductivityEntry \<Rightarrow> string" where
  "entryLine env e =
     ''- '' @ e_title e @ '' ('' @ e_category e @ '', '' @ showInt env (e_duration e) @ ''min, ''
     @ (if e_completed e then ''completed'' else ''incomplete'') @ '')''
     @ (case e_notes e of
          None \<Rightarrow> []
        | Some n \<Rightarrow> if n = [] then [] else '' Notes: '' @ n)"

definition scorePrompt :: "env \<Rightarrow> User option \<Rightarrow> date \<Rightarrow> ProductivityEntry list \<Rightarrow> string" where
  \<open>scorePrompt env user dt entries =
     ''You are a productivity analyst. Rate this person's daily productivity on a scale of 0-100 and provide a brief insight.''
     @ nl @ nl @ ''User Profile:'' @ nl
     @ ''- Name: '' @ userField u_fullName user @ nl
     @ ''- Occupation: '' @ userField u_occupation user @ nl
     @ ''- Goals: '' @ userField u_goals user @ nl @ nl
     @ ''Today's Activities ('' @ dateString env dt @ ''):'' @ nl
     @ joinWith nl (map (entryLine env) entries) @ nl @ nl
     @ ''Respond in this exact JSON format:'' @ nl
     @ ''{"score": <number 0-100>, "insight": "<2-3 sentence insight about their productivity>"}''\<close>

text \<open>
  The outcome of \<open>openai.chat.completions.create\<close>: it throws, or it returns a response
  whose first choice has a message content or none.  The external service is a function
  from the prompt to the outcome.
\<close>

datatype completion = Throws | Content "string option"

text \<open>\<open>response.choices[0]?.message?.content || '{"score": 50, "insight": "Keep going!"}'\<close>\<close>

definition contentOf :: "string option \<Rightarrow> string" where
  \<open>contentOf c =
     (case c of
        None \<Rightarrow> ''{"score": 50, "insight": "Keep going!"}''
      | Some s \<Rightarrow> if s = [] then ''{"score": 50, "insight": "Keep going!"}'' else s)\<close>

text \<open>
  The \<open>try\<close> block: parse the match, or the whole content when there is no match; when
  \<open>JSON.parse\<close> throws, the object \<open>{ score: 50, insight: content }\<close>.
\<close>

definition parseContent :: "env \<Rightarrow> string \<Rightarrow> jsval" where
  "parseContent env content =
     (case JSON_parse env (case jsonMatch content of Some m \<Rightarrow> m | None \<Rightarrow> content) of
        Some v \<Rightarrow> v
      | None \<Rightarrow> JObj [(''score'', JNum (Fin 50)), (''insight'', JStr content)])"

text \<open>\<open>n || 50\<close> on a number.\<close>

definition orFifty :: "jsnum \<Rightarrow> jsnum" where
  "orFifty n = (if truthy (JNum n) then n else Fin 50)"

text \<open>\<open>Math.min(100, Math.max(0, Number(v) || 50))\<close>\<close>

definition clampScore :: "env \<Rightarrow> jsval \<Rightarrow> jsnum" where
  "clampScore env v = Math_min (Fin 100) (Math_max (Fin 0) (orFifty (ToNumber env v)))"

text \<open>
  The value a \<open>real\<close> column holds after the number is written to it: the column is
  single precision, so it is the nearest single-precision number, and that is the number
  a later query reads.  The clamped score is always finite (\<open>clampScore_finite\<close> below),
  so the second case does not arise.
\<close>

definition realColumn :: "jsnum \<Rightarrow> rat" where
  "realColumn n = (case n of Fin x \<Rightarrow> float32 x | _ \<Rightarrow> 0)"

text \<open>
  Lines 260 to 265: the week of the date, the daily scores of the user in it, and, when
  there is one, the weekly row with \<open>Math.round(avg * 10) / 10\<close> and their number.  The
  sum is accumulated in the order of the query, and every addition, the division by the
  length, the product with 10 and the division by 10 are operations on doubles: each
  result is rounded to the nearest double.  The average goes to a \<open>real\<close> column.
\<close>

definition refreshWeekly :: "env \<Rightarrow> db \<Rightarrow> timestamp \<Rightarrow> int \<Rightarrow> date \<Rightarrow> db" where
  "refreshWeekly env d now userId dt =
     (case getWeekBounds (LocalTZA env) now (Some dt) of
        (weekStart, weekEnd) \<Rightarrow>
          (let weekScores = getDailyScores d userId weekStart weekEnd
           in if length weekScores > 0
              then (let avg = float64 (foldl (\<lambda>sum s. float64 (sum + ds_score s)) 0 weekScores
                                         / of_nat (length weekScores))
                    in snd (saveWeeklyScore d now userId weekStart weekEnd
                              (realColumn (Fin (float64 (Math_round (float64 (avg * 10)) / 10))))
                              (int (length weekScores))))
              else d))"

text \<open>The number \<open>Math.round(avg * 10) / 10\<close> of these lines, for the scores \<open>xs\<close>.\<close>

definition roundedAverage :: "rat list \<Rightarrow> rat" where
  "roundedAverage xs =
     (let avg = float64 (foldl (\<lambda>sum s. float64 (sum + s)) 0 xs / of_nat (length xs))
      in float64 (Math_round (float64 (avg * 10)) / 10))"

text \<open>
  The handler.  \<open>bodyDate\<close> is \<open>req.body.date\<close> (\<open>None\<close> when missing or empty, then
  the date is today's, in UTC); \<open>now\<close> is the time of the request.  The result is the
  response, the store, and the prompts sent to the external service.  Anything thrown
  inside the outer \<open>try\<close> is answered with 500.
\<close>

definition route_scoreDaily ::
  "env \<Rightarrow> (string \<Rightarrow> completion) \<Rightarrow> db \<Rightarrow> timestamp \<Rightarrow> int option \<Rightarrow> date option
     \<Rightarrow> response \<times> db \<times> string list" where
  "route_scoreDaily env ai d now session bodyDate =
     requireAuth session (d, []) (\<lambda>userId.
       (let dt = (case bodyDate of Some s \<Rightarrow> s | None \<Rightarrow> isoDate now);
            entries = getEntriesByDate d userId dt
        in if length entries = 0
           then (Response 200
                   (JObj [(''score'', JNum (Fin 0)),
                          (''insight'', JStr ''No activities logged today. Start tracking to get your productivity score!'')]),
                 d, [])
           else (let user = getUserById d userId;
                     prompt = scorePrompt env user dt entries
                 in case ai prompt of
                      Throws \<Rightarrow> (Response 500 (message_body ''Failed to generate score''), d, [prompt])
                    | Content c \<Rightarrow>
                        (let content = contentOf c;
                             parsed = parseContent env content
                         in case getProp parsed ''score'' of
                              Inl err \<Rightarrow>
                                (Response 500 (message_body ''Failed to generate score''), d, [prompt])
                            | Inr s \<Rightarrow>
                                (case getProp parsed ''insight'' of
                                   Inl err \<Rightarrow>
                                     (Response 500 (message_body ''Failed to generate score''),
                                      d, [prompt])
                                 | Inr i \<Rightarrow>
                                     (let score = clampScore env s;
                                          insight = jsOr i (JStr ''Keep pushing your productivity!'');
                                          d1 = snd (saveDailyScore d now userId dt
                                                      (realColumn score) insight);
                                          d2 = refreshWeekly env d1 now userId dt
                                      in (Response 200
                                            (JObj [(''score'', JNum score),
                                                   (''insight'', insight),
                                                   (''date'', JStr (dateString env dt))]),
                                          d2, [prompt])))))))"


section \<open>Chat (POST /api/chat)\<close>

text \<open>\<open>ORDER BY created_at\<close>, ties kept in table order.\<close>

definition getChatMessages :: "db \<Rightarrow> int \<Rightarrow> ChatMessage list" where
  "getChatMessages d userId =
     sort_key m_createdAt (filter (\<lambda>m. m_userId m = userId) (chatMessages d))"

definition saveChatMessage :: "db \<Rightarrow> timestamp \<Rightarrow> int \<Rightarrow> string \<Rightarrow> string \<Rightarrow> ChatMessage \<times> db" where
  "saveChatMessage d now userId role content =
     (let msg = \<lparr> m_id = chatMessages_seq d, m_userId = userId, m_role = role,
                   m_content = content, m_createdAt = now \<rparr>
      in (msg, d\<lparr>chatMessages := chatMessages d @ [msg],
                  chatMessages_seq := chatMessages_seq d + 1\<rparr>))"

text \<open>\<open>xs.slice(0, n)\<close> and \<open>xs.slice(-n)\<close>.\<close>

definition sliceFirst :: "nat \<Rightarrow> 'a list \<Rightarrow> 'a list" where
  "sliceFirst n xs = take n xs"

definition sliceLast :: "nat \<Rightarrow> 'a list \<Rightarrow> 'a list" where
  "sliceLast n xs = drop (length xs - n) xs"

definition chatEntryLine :: "env \<Rightarrow> ProductivityEntry \<Rightarrow> string" where
  "chatEntryLine env e =
     dateString env (e_date e) @ '': '' @ e_title e @ '' ('' @ e_category e @ '', ''
     @ showInt env (e_duration e) @ ''min, ''
     @ (if e_completed e then ''done'' else ''pending'') @ '')''"

definition entriesSummary :: "env \<Rightarrow> ProductivityEntry list \<Rightarrow> string" where
  "entriesSummary env recentEntries =
     (if length recentEntries > 0
      then joinWith nl (map (chatEntryLine env) (sliceFirst 20 recentEntries))
      else ''No recent activities logged.'')"

definition chatScoreLine :: "env \<Rightarrow> DailyScore \<Rightarrow> string" where
  "chatScoreLine env s =
     dateString env (ds_date s) @ '': Score '' @ NumberToString env (Fin (ds_score s)) @ ''/100''"

definition scoresSummary :: "env \<Rightarrow> DailyScore list \<Rightarrow> string" where
  "scoresSummary env recentScores =
     (if length recentScores > 0
      then joinWith '', '' (map (chatScoreLine env) recentScores)
      else ''No scores yet.'')"

definition systemPrompt :: "User option \<Rightarrow> string \<Rightarrow> string \<Rightarrow> string" where
  "systemPrompt user entries scores =
     ''You are an expert productivity coach. You help users maximize their productivity with actionable, personalized advice.''
     @ nl @ nl @ ''User Profile:'' @ nl
     @ ''- Name: '' @ userField u_fullName user @ nl
     @ ''- Occupation: '' @ userField u_occupation user @ nl
     @ ''- Goals: '' @ userField u_goals user @ nl @ nl
     @ ''Recent Activities This Week:'' @ nl
     @ entries @ nl @ nl
     @ ''Recent Scores: '' @ scores @ nl @ nl
     @ ''Guidelines:'' @ nl
     @ ''- Be encouraging but honest'' @ nl
     @ ''- Give specific, actionable advice'' @ nl
     @ ''- Reference their actual activities and scores when relevant'' @ nl
     @ ''- Keep responses concise (2-4 sentences unless they ask for detailed plans)'' @ nl
     @ ''- Use their name occasionally for a personal touch''"

text \<open>
  The generation context: the system instruction (with the entries and scores of the
  current week, read after the new message was saved), the last 20 turns of the history
  (read before it was saved), and the new message.  A turn is a role and a content.
\<close>

definition chatContext ::
  "env \<Rightarrow> db \<Rightarrow> timestamp \<Rightarrow> int \<Rightarrow> User option \<Rightarrow> ChatMessage list \<Rightarrow> string
     \<Rightarrow> (string \<times> string) list" where
  "chatContext env d now userId user chatHistory msg =
     (case getWeekBounds (LocalTZA env) now None of
        (weekStart, weekEnd) \<Rightarrow>
          (let recentEntries = getEntriesByDateRange d userId weekStart weekEnd;
               recentScores = getDailyScores d userId weekStart weekEnd
           in [(''system'',
                systemPrompt user (entriesSummary env recentEntries)
                  (scoresSummary env recentScores))]
              @ map (\<lambda>m. (m_role m, m_content m)) (sliceLast 20 chatHistory)
              @ [(''user'', msg)]))"

text \<open>
  The outcome of the streaming call: the contents of the chunks received (\<open>None\<close> for a
  chunk without content), and whether the stream then ends or throws (a call that throws
  at once has no chunk).
\<close>

datatype streamed = Streamed "string option list" bool

definition chunkContent :: "string option \<Rightarrow> string" where
  "chunkContent c = (case c of None \<Rightarrow> [] | Some s \<Rightarrow> s)"

text \<open>
  The handler.  \<open>message\<close> is \<open>req.body.message\<close>, \<open>None\<close> when missing.  The result is
  the response, the store, and the contexts sent to the external service.
\<close>

definition route_chat ::
  "env \<Rightarrow> ((string \<times> string) list \<Rightarrow> streamed) \<Rightarrow> db \<Rightarrow> timestamp \<Rightarrow> int option \<Rightarrow> string option
     \<Rightarrow> response \<times> db \<times> (string \<times> string) list list" where
  "route_chat env ai d now session message =
     requireAuth session (d, []) (\<lambda>userId.
       (case message of
          None \<Rightarrow> (Response 400 (message_body ''Message is required''), d, [])
        | Some msg \<Rightarrow>
            if msg = [] then (Response 400 (message_body ''Message is required''), d, [])
            else
              (let user = getUserById d userId;
                   chatHistory = getChatMessages d userId;
                   d1 = snd (saveChatMessage d now userId ''user'' msg);
                   messages = chatContext env d1 now userId user chatHistory msg
               in case ai messages of
                    Streamed chunks ok \<Rightarrow>
                      (let contents = filter (\<lambda>c. c \<noteq> []) (map chunkContent chunks);
                           fullResponse = concat contents
                       in if ok
                          then (EventStream (map ContentEvent contents @ [Done]),
                                snd (saveChatMessage d1 now userId ''assistant'' fullResponse),
                                [messages])
                          else (EventStream (map ContentEvent contents
                                             @ [ErrorEvent ''Failed to get response'']),
                                d1, [messages])))))"

section \<open>One row per key\<close>

definition dailyKey :: "DailyScore \<Rightarrow> int \<times> date" where
  "dailyKey r = (ds_userId r, ds_date r)"

definition weeklyKey :: "WeeklyScore \<Rightarrow> int \<times> date" where
  "weeklyKey r = (ws_userId r, ws_weekStart r)"

section \<open>An example environment\<close>

text \<open>
  A concrete environment in which the examples are evaluated: a process running in UTC,
  with a JSON parser, decimal conversions between strings and numbers, and the ISO text
  of a date.  The parser reads JSON texts without \<open>\u\<close> escapes (it rejects those);
  the theorems about the code hold for every environment and do not depend on it.
\<close>

definition isWs :: "char \<Rightarrow> bool" where
  "isWs c = (c = CHR '' '' \<or> c = CHR 0x0A \<or> c = CHR 0x0D \<or> c = CHR 0x09)"

definition skipWs :: "string \<Rightarrow> string" where
  "skipWs s = dropWhile isWs s"

definition isDigit :: "char \<Rightarrow> bool" where
  "isDigit c = (c \<in> set ''0123456789'')"

definition digitVal :: "char \<Rightarrow> int" where
  "digitVal c = of_char c - 48"

definition digitsVal :: "string \<Rightarrow> int" where
  "digitsVal ds = foldl (\<lambda>n c. 10 * n + digitVal c) 0 ds"

text \<open>The characters of a JSON string after the opening quote, up to the closing one.\<close>

fun parseChars :: "string \<Rightarrow> string \<Rightarrow> (string \<times> string) option" where
  "parseChars [] acc = None"
| "parseChars (c # cs) acc =
     (if c = CHR 0x22 then Some (rev acc, cs)
      else if c = CHR 0x5C then
        (case cs of
           [] \<Rightarrow> None
         | e # cs' \<Rightarrow>
             if e = CHR 0x22 \<or> e = CHR 0x5C \<or> e = CHR ''/'' then parseChars cs' (e # acc)
             else if e = CHR ''n'' then parseChars cs' (CHR 0x0A # acc)
             else if e = CHR ''t'' then parseChars cs' (CHR 0x09 # acc)
             else if e = CHR ''r'' then parseChars cs' (CHR 0x0D # acc)
             else if e = CHR ''b'' then parseChars cs' (CHR 0x08 # acc)
             else if e = CHR ''f'' then parseChars cs' (CHR 0x0C # acc)
             else None)
      else if of_char c < (32::nat) then None
      else parseChars cs (c # acc))"

text \<open>
  A JSON number: an optional minus, an integer part without a leading zero, an optional
  fraction and an optional exponent.  The result is the decimal number written; the
  parser below rounds it to the nearest double.
\<close>

definition parseNumber :: "string \<Rightarrow> (rat \<times> string) option" where
  "parseNumber s =
     (let neg = (s \<noteq> [] \<and> hd s = CHR ''-'');
          s1 = (if neg then tl s else s);
          ip = takeWhile isDigit s1;
          s2 = dropWhile isDigit s1
      in if ip = [] \<or> (length ip > 1 \<and> hd ip = CHR ''0'') then None
         else
           (let hasFrac = (s2 \<noteq> [] \<and> hd s2 = CHR ''.'');
                fp = (if hasFrac then takeWhile isDigit (tl s2) else []);
                s3 = (if hasFrac then dropWhile isDigit (tl s2) else s2)
            in if hasFrac \<and> fp = [] then None
               else
                 (let hasExp = (s3 \<noteq> [] \<and> (hd s3 = CHR ''e'' \<or> hd s3 = CHR ''E''));
                      s4 = (if hasExp then tl s3 else s3);
                      eneg = (hasExp \<and> s4 \<noteq> [] \<and> hd s4 = CHR ''-'');
                      s5 = (if hasExp \<and> s4 \<noteq> [] \<and> (hd s4 = CHR ''-'' \<or> hd s4 = CHR ''+'')
                            then tl s4 else s4);
                      ep = (if hasExp then takeWhile isDigit s5 else []);
                      s6 = (if hasExp then dropWhile isDigit s5 else s3)
                  in if hasExp \<and> ep = [] then None
                     else
                       (let m = of_int (digitsVal ip)
                                + of_int (digitsVal fp) / 10 ^ length fp;
                            x = (if eneg then m / 10 ^ nat (digitsVal ep)
                                 else m * 10 ^ nat (digitsVal ep))
                        in Some (if neg then - x else x, s6)))))"

text \<open>
  Values, the elements of an array after the opening bracket, and the members of an
  object after the opening brace.  The first argument bounds the depth of the calls; every
  call consumes a character, so the length of the text plus one is enough.
\<close>

fun parseValue :: "nat \<Rightarrow> string \<Rightarrow> (jsval \<times> string) option"
  and parseElements :: "nat \<Rightarrow> string \<Rightarrow> jsval list \<Rightarrow> (jsval \<times> string) option"
  and parseMembers :: "nat \<Rightarrow> string \<Rightarrow> (string \<times> jsval) list \<Rightarrow> (jsval \<times> string) option"
  where
  "parseValue 0 s = None"
| "parseValue (Suc n) s =
     (case skipWs s of
        [] \<Rightarrow> None
      | c # cs \<Rightarrow>
          if c = CHR ''{'' then
            (case skipWs cs of
               [] \<Rightarrow> None
             | c' # cs' \<Rightarrow> if c' = CHR ''}'' then Some (JObj [], cs')
                          else parseMembers n (c' # cs') [])
          else if c = CHR ''['' then
            (case skipWs cs of
               [] \<Rightarrow> None
             | c' # cs' \<Rightarrow> if c' = CHR '']'' then Some (JArr [], cs')
                          else parseElements n (c' # cs') [])
          else if c = CHR 0x22 then
            (case parseChars cs [] of None \<Rightarrow> None | Some (str, r) \<Rightarrow> Some (JStr str, r))
          else if take 4 (c # cs) = ''true'' then Some (JBool True, drop 4 (c # cs))
          else if take 5 (c # cs) = ''false'' then Some (JBool False, drop 5 (c # cs))
          else if take 4 (c # cs) = ''null'' then Some (JNull, drop 4 (c # cs))
          else (case parseNumber (c # cs) of
                  None \<Rightarrow> None
                | Some (x, r) \<Rightarrow> Some (JNum (Fin (float64 x)), r)))"
| "parseElements 0 s acc = None"
| "parseElements (Suc n) s acc =
     (case parseValue n s of
        None \<Rightarrow> None
      | Some (v, r) \<Rightarrow>
          (case skipWs r of
             [] \<Rightarrow> None
           | c # cs \<Rightarrow>
               if c = CHR '','' then parseElements n cs (v # acc)
               else if c = CHR '']'' then Some (JArr (rev (v # acc)), cs)
               else None))"
| "parseMembers 0 s acc = None"
| "parseMembers (Suc n) s acc =
     (case skipWs s of
        [] \<Rightarrow> None
      | q # cs \<Rightarrow>
          if q \<noteq> CHR 0x22 then None
          else
            (case parseChars cs [] of
               None \<Rightarrow> None
             | Some (k, r) \<Rightarrow>
                 (case skipWs r of
                    [] \<Rightarrow> None
                  | c # r' \<Rightarrow>
                      if c \<noteq> CHR '':'' then None
                      else
                        (case parseValue n r' of
                           None \<Rightarrow> None
                         | Some (v, r'') \<Rightarrow>
                             (case skipWs r'' of
                                [] \<Rightarrow> None
                              | c' # cs' \<Rightarrow>
                                  if c' = CHR '','' then parseMembers n cs' ((k, v) # acc)
                                  else if c' = CHR ''}'' then
                                    Some (JObj (rev ((k, v) # acc)), cs')
                                  else None)))))"

text \<open>\<open>JSON.parse\<close>: one value, with nothing but white space after it.\<close>

definition exampleParse :: "string \<Rightarrow> jsval option" where
  "exampleParse s =
     (case parseValue (3 * length s + 3) s of
        None \<Rightarrow> None
      | Some (v, r) \<Rightarrow> if skipWs r = [] then Some v else None)"

text \<open>\<open>Number(s)\<close> on a string: 0 for a blank string, a decimal literal, or NaN.\<close>

definition exampleStringToNumber :: "string \<Rightarrow> jsnum" where
  "exampleStringToNumber s =
     (let t = skipWs s
      in if t = [] then Fin 0
         else (case parseNumber t of
                 None \<Rightarrow> NaN
               | Some (x, r) \<Rightarrow> if skipWs r = [] then Fin (float64 x) else NaN))"

text \<open>The decimal digits of a natural number.\<close>

function decimal :: "int \<Rightarrow> string" where
  "decimal n =
     (if n < 10 then [char_of (48 + n)]
      else decimal (n div 10) @ [char_of (48 + n mod 10)])"
  by pat_completeness auto
termination
  by (relation "measure nat") auto

text \<open>The digits of the fraction \<open>x\<close> (between 0 and 1), at most \<open>k\<close> of them.\<close>

fun fracDigits :: "nat \<Rightarrow> rat \<Rightarrow> string" where
  "fracDigits 0 x = []"
| "fracDigits (Suc k) x =
     (if x = 0 then []
      else char_of (48 + \<lfloor>x * 10\<rfloor>) # fracDigits k (x * 10 - of_int \<lfloor>x * 10\<rfloor>))"

definition exampleNumberToString :: "jsnum \<Rightarrow> string" where
  "exampleNumberToString n =
     (case n of
        NaN \<Rightarrow> ''NaN''
      | PosInf \<Rightarrow> ''Infinity''
      | NegInf \<Rightarrow> ''-Infinity''
      | Fin x \<Rightarrow>
          (let a = \<bar>x\<bar>; ip = \<lfloor>a\<rfloor>; fp = fracDigits 17 (a - of_int \<lfloor>a\<rfloor>)
           in (if x < 0 then ''-'' else []) @ decimal ip
              @ (if fp = [] then [] else ''.'' @ fp)))"

definition pad :: "nat \<Rightarrow> string \<Rightarrow> string" where
  "pad k s = replicate (k - length s) CHR ''0'' @ s"

text \<open>The text \<open>YYYY-MM-DD\<close> of a date (of a year from 0 to 9999).\<close>

definition exampleDateString :: "date \<Rightarrow> string" where
  "exampleDateString dt =
     (let t = parseDate dt
      in pad 4 (decimal (YearFromTime t)) @ ''-''
         @ pad 2 (decimal (MonthFromTime t + 1)) @ ''-''
         @ pad 2 (decimal (DateFromTime t)))"

definition exampleEnv :: env where
  "exampleEnv = \<lparr> LocalTZA = fixedZone 0, JSON_parse = exampleParse,
     StringToNumber = exampleStringToNumber, NumberToString = exampleNumberToString,
     dateString = exampleDateString \<rparr>"

text \<open>
  The same environment in two other time zones: one hour east of UTC and five hours
  west of it (Berlin and New York, in winter).
\<close>

definition eastEnv :: env where
  "eastEnv = exampleEnv\<lparr>LocalTZA := fixedZone 3600000\<rparr>"

definition westEnv :: env where
  "westEnv = exampleEnv\<lparr>LocalTZA := fixedZone (- 18000000)\<rparr>"

section \<open>Example data\<close>

text \<open>
  The example of the specification: a user with two entries on Saturday 2026-02-07 and
  daily scores of 80 and 60 on 2026-02-02 and 2026-02-04, hence a weekly row with
  average 70 of 2 scores for the week of 2026-02-02.
\<close>

definition alice :: User where
  "alice = \<lparr> u_id = 1, u_username = ''alice'', u_email = ''alice@example.org'',
     u_password = ''$2b$10$hash'', u_fullName = ''Alice Doe'', u_occupation = ''Engineer'',
     u_goals = ''Ship the release'', u_createdAt = 1769904000000 \<rparr>"

definition exampleEntries :: "ProductivityEntry list" where
  "exampleEntries =
     [\<lparr> e_id = 1, e_userId = 1, e_title = ''Code review'', e_category = ''work'',
        e_duration = 30, e_completed = True, e_notes = None, e_date = ymd 2026 2 7,
        e_createdAt = 1770454800000 \<rparr>,
      \<lparr> e_id = 2, e_userId = 1, e_title = ''Run'', e_category = ''exercise'',
        e_duration = 45, e_completed = False, e_notes = Some ''rain'', e_date = ymd 2026 2 7,
        e_createdAt = 1770458400000 \<rparr>]"

definition exampleDaily :: "DailyScore list" where
  "exampleDaily =
     [\<lparr> ds_id = 1, ds_userId = 1, ds_date = ymd 2026 2 2, ds_score = 80,
        ds_aiInsight = JStr ''Strong start.'', ds_createdAt = 1770066000000 \<rparr>,
      \<lparr> ds_id = 2, ds_userId = 1, ds_date = ymd 2026 2 4, ds_score = 60,
        ds_aiInsight = JStr ''A slower day.'', ds_createdAt = 1770238800000 \<rparr>]"

definition exampleWeekly :: "WeeklyScore list" where
  "exampleWeekly =
     [\<lparr> ws_id = 1, ws_userId = 1, ws_weekStart = ymd 2026 2 2, ws_weekEnd = ymd 2026 2 8,
        ws_avgScore = 70, ws_totalEntries = 2, ws_createdAt = 1770066000000 \<rparr>]"

definition exampleDb :: db where
  "exampleDb = \<lparr> users = [alice], productivityEntries = exampleEntries,
     dailyScores = exampleDaily, weeklyScores = exampleWeekly, chatMessages = [],
     users_seq = 2, productivityEntries_seq = 3, dailyScores_seq = 3, weeklyScores_seq = 2,
     chatMessages_seq = 1 \<rparr>"


text \<open>
  The example store with a further daily score, 20 on Sunday 2026-02-08; a store where
  the only entry of the user is one on Monday 2026-02-02 and no score has been computed
  yet.
\<close>

definition sundayScoreDb :: db where
  "sundayScoreDb = exampleDb\<lparr>dailyScores := exampleDaily @
     [\<lparr> ds_id = 3, ds_userId = 1, ds_date = ymd 2026 2 8, ds_score = 20,
        ds_aiInsight = JStr ''A quiet Sunday.'', ds_createdAt = 1770573600000 \<rparr>],
     dailyScores_seq := 4\<rparr>"

definition mondayDb :: db where
  "mondayDb = exampleDb\<lparr>productivityEntries :=
     [\<lparr> e_id = 1, e_userId = 1, e_title = ''Planning'', e_category = ''work'',
        e_duration = 60, e_completed = True, e_notes = None, e_date = ymd 2026 2 2,
        e_createdAt = 1770022800000 \<rparr>],
     productivityEntries_seq := 2, dailyScores := [], dailyScores_seq := 1,
     weeklyScores := [], weeklyScores_seq := 1\<rparr>"

section \<open>Replies of the external service\<close>

text \<open>A reply of the external service: a JSON object with text around it.\<close>

definition exampleObject :: string where
  \<open>exampleObject = ''{"score": 75, "insight": "Solid day."}''\<close>

definition exampleReply :: string where
  "exampleReply = ''Here is my rating: '' @ exampleObject @ '' Keep it up!''"

text \<open>Three more replies: a score of zero, a score of 100, and two objects in one text.\<close>

definition fullReply :: string where
  \<open>fullReply = ''{"score": 100, "insight": "Great."}''\<close>

definition zeroReply :: string where
  \<open>zeroReply = ''{"score": 0, "insight": "Rest day."}''\<close>



section \<open>The first brace-delimited object, as the specification words it\<close>




text \<open>A store with 25 prior chat turns of the user, one per second, and a stream of chunks.\<close>

definition chatTurn :: "int \<Rightarrow> ChatMessage" where
  "chatTurn i = \<lparr> m_id = i, m_userId = 1,
     m_role = (if i mod 2 = 1 then ''user'' else ''assistant''),
     m_content = ''turn '' @ decimal i, m_createdAt = 1770400000000 + 1000 * i \<rparr>"

definition chatDb :: db where
  "chatDb = exampleDb\<lparr>chatMessages := map chatTurn [1..25], chatMessages_seq := 26\<rparr>"

text \<open>
  That store with a further entry of the user, on Sunday 2026-02-08, and a chat turn of
  another user among the 25.
\<close>

definition sundayEntryDb :: db where
  "sundayEntryDb = chatDb\<lparr>productivityEntries := exampleEntries @
     [\<lparr> e_id = 3, e_userId = 1, e_title = ''Walk'', e_category = ''health'',
        e_duration = 20, e_completed = True, e_notes = None, e_date = ymd 2026 2 8,
        e_createdAt = 1770541200000 \<rparr>],
     productivityEntries_seq := 4,
     chatMessages := map chatTurn [1..25] @
       [\<lparr> m_id = 26, m_userId = 2, m_role = ''user'', m_content = ''Not a turn of user 1'',
          m_createdAt = 1770400010500 \<rparr>],
     chatMessages_seq := 27\<rparr>"

definition exampleStream :: "(string \<times> string) list \<Rightarrow> streamed" where
  "exampleStream messages = Streamed [Some ''Well '', None, Some ''done.''] True"

section \<open>Authentication (register, login, session check)\<close>

text \<open>
  The parameters of the three handlers: \<open>bcrypt.hash\<close> and \<open>bcrypt.compare\<close>, and the
  JSON form of a \<open>Date\<close> (\<open>res.json\<close> sends its ISO text).
\<close>

record authEnv =
  bcrypt_hash :: "string \<Rightarrow> string"
  bcrypt_compare :: "string \<Rightarrow> string \<Rightarrow> bool"
  dateJSON :: "timestamp \<Rightarrow> jsval"

record InsertUser =
  iu_username :: string
  iu_email :: string
  iu_password :: string
  iu_fullName :: string
  iu_occupation :: string
  iu_goals :: string

definition getUserByUsername :: "db \<Rightarrow> string \<Rightarrow> User option" where
  "getUserByUsername d username = find (\<lambda>u. u_username u = username) (users d)"

text \<open>
  The unique constraints of the \<open>users\<close> table.  \<open>createUser\<close> hashes the password and
  inserts the row; the insert throws when the user name or the e-mail address is taken
  (the sequence has advanced all the same).
\<close>

datatype constraint = users_username_unique | users_email_unique

definition createUser :: "authEnv \<Rightarrow> db \<Rightarrow> timestamp \<Rightarrow> InsertUser \<Rightarrow> (constraint + User) \<times> db" where
  "createUser a d now data =
     (let hashedPassword = bcrypt_hash a (iu_password data);
          user = \<lparr> u_id = users_seq d, u_username = iu_username data, u_email = iu_email data,
                   u_password = hashedPassword, u_fullName = iu_fullName data,
                   u_occupation = iu_occupation data, u_goals = iu_goals data,
                   u_createdAt = now \<rparr>
      in if list_ex (\<lambda>u. u_username u = iu_username data) (users d)
         then (Inl users_username_unique, d\<lparr>users_seq := users_seq d + 1\<rparr>)
         else if list_ex (\<lambda>u. u_email u = iu_email data) (users d)
         then (Inl users_email_unique, d\<lparr>users_seq := users_seq d + 1\<rparr>)
         else (Inr user, d\<lparr>users := users d @ [user], users_seq := users_seq d + 1\<rparr>))"

definition verifyPassword :: "authEnv \<Rightarrow> string \<Rightarrow> string \<Rightarrow> bool" where
  "verifyPassword a password hash = bcrypt_compare a password hash"

text \<open>The object of a user row, as the query returns it and \<open>res.json\<close> would send it.\<close>

definition userObject :: "authEnv \<Rightarrow> User \<Rightarrow> (string \<times> jsval) list" where
  "userObject a u =
     [(''id'', JNum (Fin (of_int (u_id u)))),
      (''username'', JStr (u_username u)),
      (''email'', JStr (u_email u)),
      (''password'', JStr (u_password u)),
      (''fullName'', JStr (u_fullName u)),
      (''occupation'', JStr (u_occupation u)),
      (''goals'', JStr (u_goals u)),
      (''createdAt'', dateJSON a (u_createdAt u))]"

text \<open>\<open>const { password, ...safeUser } = user\<close>: the object without the key \<open>password\<close>.\<close>

definition safeUser :: "authEnv \<Rightarrow> User \<Rightarrow> (string \<times> jsval) list" where
  "safeUser a u = filter (\<lambda>kv. fst kv \<noteq> ''password'') (userObject a u)"

text \<open>\<open>error?.constraint?.includes("email")\<close>, on the names of the two constraints.\<close>

fun includesEmail :: "constraint \<Rightarrow> bool" where
  "includesEmail users_username_unique = False"
| "includesEmail users_email_unique = True"

text \<open>
  \<open>POST /api/auth/register\<close>.  \<open>parsed\<close> is the result of
  \<open>insertUserSchema.safeParse(req.body)\<close>: the flattened errors, or the data.  The result
  is the response, the store and the user identifier of the session.
\<close>

definition route_register ::
  "authEnv \<Rightarrow> db \<Rightarrow> timestamp \<Rightarrow> int option \<Rightarrow> (jsval + InsertUser)
     \<Rightarrow> response \<times> db \<times> int option" where
  "route_register a d now session parsed =
     (case parsed of
        Inl errors \<Rightarrow>
          (Response 400 (JObj [(''message'', JStr ''Invalid input''), (''errors'', errors)]),
           d, session)
      | Inr data \<Rightarrow>
          (case getUserByUsername d (iu_username data) of
             Some existing \<Rightarrow>
               (Response 409 (message_body ''Username already taken''), d, session)
           | None \<Rightarrow>
               (case createUser a d now data of
                  (Inl c, d') \<Rightarrow>
                    if includesEmail c
                    then (Response 409 (message_body ''Email already in use''), d', session)
                    else (Response 500 (message_body ''Failed to register''), d', session)
                | (Inr user, d') \<Rightarrow>
                    (Response 201 (JObj (safeUser a user)), d', Some (u_id user)))))"

text \<open>
  \<open>POST /api/auth/login\<close>.  \<open>parsed\<close> is the result of \<open>loginSchema.safeParse\<close>: the
  user name and the password, or nothing when the body is invalid.
\<close>

definition route_login ::
  "authEnv \<Rightarrow> db \<Rightarrow> int option \<Rightarrow> (string \<times> string) option \<Rightarrow> response \<times> int option" where
  "route_login a d session parsed =
     (case parsed of
        None \<Rightarrow> (Response 400 (message_body ''Invalid input''), session)
      | Some (username, password) \<Rightarrow>
          (case getUserByUsername d username of
             None \<Rightarrow> (Response 401 (message_body ''Invalid credentials''), session)
           | Some user \<Rightarrow>
               if \<not> verifyPassword a password (u_password user)
               then (Response 401 (message_body ''Invalid credentials''), session)
               else (Response 200 (JObj (safeUser a user)), Some (u_id user))))"

text \<open>\<open>GET /api/auth/me\<close>.\<close>

definition route_me :: "authEnv \<Rightarrow> db \<Rightarrow> int option \<Rightarrow> response" where
  "route_me a d session =
     (case session of
        None \<Rightarrow> Response 401 (message_body ''Not authenticated'')
      | Some userId \<Rightarrow>
          if userId = 0 then Response 401 (message_body ''Not authenticated'')
          else
            (case getUserById d userId of
               None \<Rightarrow> Response 401 (message_body ''User not found'')
             | Some user \<Rightarrow> Response 200 (JObj (safeUser a user))))"

text \<open>Whether a response body is an object with a given key.\<close>

fun hasKey :: "string \<Rightarrow> response \<Rightarrow> bool" where
  "hasKey k (Response status (JObj kvs)) = (k \<in> set (map fst kvs))"
| "hasKey k r = False"

definition exampleAuth :: authEnv where
  "exampleAuth = \<lparr> bcrypt_hash = (\<lambda>p. ''$2b$10$'' @ rev p),
     bcrypt_compare = (\<lambda>p h. h = ''$2b$10$'' @ rev p),
     dateJSON = (\<lambda>t. JStr (exampleDateString (Day t))) \<rparr>"

definition bob :: InsertUser where
  "bob = \<lparr> iu_username = ''bob'', iu_email = ''bob@example.org'', iu_password = ''secret'',
     iu_fullName = ''Bob Roe'', iu_occupation = ''Writer'', iu_goals = ''Finish the draft'' \<rparr>"


section \<open>Verified properties\<close>

subsection \<open>Deleting an entry\<close>


lemma filter_nonempty_iff: "(filter P xs \<noteq> []) = list_ex P xs"
  by (induction xs) auto

lemma db_update_same: "(d::db)\<lparr>productivityEntries := productivityEntries d\<rparr> = d"
  by simp






subsection \<open>Upserts\<close>

lemma saveDailyScore_update:
  assumes "list_ex (\<lambda>r. ds_userId r = u \<and> ds_date r = dt) (dailyScores d)"
  shows "snd (saveDailyScore d now u dt s i) =
    d\<lparr>dailyScores := map (\<lambda>r. if ds_userId r = u \<and> ds_date r = dt
                                then r\<lparr>ds_score := s, ds_aiInsight := i\<rparr> else r) (dailyScores d)\<rparr>"
  using assms by (simp add: saveDailyScore_def Let_def filter_nonempty_iff)

lemma saveDailyScore_insert:
  assumes "\<not> list_ex (\<lambda>r. ds_userId r = u \<and> ds_date r = dt) (dailyScores d)"
  shows "snd (saveDailyScore d now u dt s i) =
    d\<lparr>dailyScores := dailyScores d @
          [\<lparr> ds_id = dailyScores_seq d, ds_userId = u, ds_date = dt, ds_score = s,
             ds_aiInsight = i, ds_createdAt = now \<rparr>],
      dailyScores_seq := dailyScores_seq d + 1\<rparr>"
  using assms by (simp add: saveDailyScore_def Let_def filter_nonempty_iff)

lemma saveWeeklyScore_update:
  assumes "list_ex (\<lambda>r. ws_userId r = u \<and> ws_weekStart r = ws) (weeklyScores d)"
  shows "snd (saveWeeklyScore d now u ws we a n) =
    d\<lparr>weeklyScores := map (\<lambda>r. if ws_userId r = u \<and> ws_weekStart r = ws
                                then r\<lparr>ws_avgScore := a, ws_totalEntries := n\<rparr> else r)
                          (weeklyScores d)\<rparr>"
  using assms by (simp add: saveWeeklyScore_def Let_def filter_nonempty_iff)

lemma saveWeeklyScore_insert:
  assumes "\<not> list_ex (\<lambda>r. ws_userId r = u \<and> ws_weekStart r = ws) (weeklyScores d)"
  shows "snd (saveWeeklyScore d now u ws we a n) =
    d\<lparr>weeklyScores := weeklyScores d @
          [\<lparr> ws_id = weeklyScores_seq d, ws_userId = u, ws_weekStart = ws, ws_weekEnd = we,
             ws_avgScore = a, ws_totalEntries = n, ws_createdAt = now \<rparr>],
      weeklyScores_seq := weeklyScores_seq d + 1\<rparr>"
  using assms by (simp add: saveWeeklyScore_def Let_def filter_nonempty_iff)

lemma dailyKey_update:
  "map dailyKey (map (\<lambda>r. if P r then r\<lparr>ds_score := s, ds_aiInsight := i\<rparr> else r) rows)
     = map dailyKey rows"
  by (induction rows) (simp_all add: dailyKey_def)

lemma weeklyKey_update:
  "map weeklyKey (map (\<lambda>r. if P r then r\<lparr>ws_avgScore := a, ws_totalEntries := n\<rparr> else r) rows)
     = map weeklyKey rows"
  by (induction rows) (simp_all add: weeklyKey_def)

lemma list_ex_dailyKey:
  "list_ex (\<lambda>r. ds_userId r = u \<and> ds_date r = dt) rows = ((u, dt) \<in> set (map dailyKey rows))"
  by (induction rows) (auto simp: dailyKey_def)

lemma list_ex_weeklyKey:
  "list_ex (\<lambda>r. ws_userId r = u \<and> ws_weekStart r = ws) rows
     = ((u, ws) \<in> set (map weeklyKey rows))"
  by (induction rows) (auto simp: weeklyKey_def)

lemma saveDailyScore_keys:
  "map dailyKey (dailyScores (snd (saveDailyScore d now u dt s i))) =
     (if (u, dt) \<in> set (map dailyKey (dailyScores d)) then map dailyKey (dailyScores d)
      else map dailyKey (dailyScores d) @ [(u, dt)])"
proof (cases "list_ex (\<lambda>r. ds_userId r = u \<and> ds_date r = dt) (dailyScores d)")
  case True
  have "(u, dt) \<in> set (map dailyKey (dailyScores d))"
    using True by (simp only: list_ex_dailyKey)
  then show ?thesis
    by (simp add: saveDailyScore_update [OF True] dailyKey_def o_def if_distrib cong: if_cong)
next
  case False
  have "(u, dt) \<notin> set (map dailyKey (dailyScores d))"
    using False by (simp only: list_ex_dailyKey not_False_eq_True)
  then show ?thesis
    by (simp add: saveDailyScore_insert [OF False] dailyKey_def)
qed

lemma saveWeeklyScore_keys:
  "map weeklyKey (weeklyScores (snd (saveWeeklyScore d now u ws we a n))) =
     (if (u, ws) \<in> set (map weeklyKey (weeklyScores d)) then map weeklyKey (weeklyScores d)
      else map weeklyKey (weeklyScores d) @ [(u, ws)])"
proof (cases "list_ex (\<lambda>r. ws_userId r = u \<and> ws_weekStart r = ws) (weeklyScores d)")
  case True
  have "(u, ws) \<in> set (map weeklyKey (weeklyScores d))"
    using True by (simp only: list_ex_weeklyKey)
  then show ?thesis
    by (simp add: saveWeeklyScore_update [OF True] weeklyKey_def o_def if_distrib cong: if_cong)
next
  case False
  have "(u, ws) \<notin> set (map weeklyKey (weeklyScores d))"
    using False by (simp only: list_ex_weeklyKey not_False_eq_True)
  then show ?thesis
    by (simp add: saveWeeklyScore_insert [OF False] weeklyKey_def)
qed

lemma saveDailyScore_values:
  assumes "r \<in> set (dailyScores (snd (saveDailyScore d now u dt s i)))" "dailyKey r = (u, dt)"
  shows "ds_score r = s \<and> ds_aiInsight r = i"
proof (cases "list_ex (\<lambda>r. ds_userId r = u \<and> ds_date r = dt) (dailyScores d)")
  case True
  from assms(1) obtain x where x: "x \<in> set (dailyScores d)"
    "r = (if ds_userId x = u \<and> ds_date x = dt
          then x\<lparr>ds_score := s, ds_aiInsight := i\<rparr> else x)"
    unfolding saveDailyScore_update [OF True] by auto
  show ?thesis
  proof (cases "ds_userId x = u \<and> ds_date x = dt")
    case True
    with x(2) show ?thesis by simp
  next
    case False
    with x(2) assms(2) show ?thesis by (simp add: dailyKey_def)
  qed
next
  case False
  then have no: "\<And>x. x \<in> set (dailyScores d) \<Longrightarrow> dailyKey x \<noteq> (u, dt)"
    by (simp add: list_ex_iff dailyKey_def)
  from assms(1) have "r \<in> set (dailyScores d) \<or>
      r = \<lparr> ds_id = dailyScores_seq d, ds_userId = u, ds_date = dt, ds_score = s,
             ds_aiInsight = i, ds_createdAt = now \<rparr>"
    unfolding saveDailyScore_insert [OF False] by auto
  with no assms(2) show ?thesis by auto
qed

lemma saveWeeklyScore_values:
  assumes "r \<in> set (weeklyScores (snd (saveWeeklyScore d now u ws we a n)))"
    "weeklyKey r = (u, ws)"
  shows "ws_avgScore r = a \<and> ws_totalEntries r = n"
proof (cases "list_ex (\<lambda>r. ws_userId r = u \<and> ws_weekStart r = ws) (weeklyScores d)")
  case True
  from assms(1) obtain x where x: "x \<in> set (weeklyScores d)"
    "r = (if ws_userId x = u \<and> ws_weekStart x = ws
          then x\<lparr>ws_avgScore := a, ws_totalEntries := n\<rparr> else x)"
    unfolding saveWeeklyScore_update [OF True] by auto
  show ?thesis
  proof (cases "ws_userId x = u \<and> ws_weekStart x = ws")
    case True
    with x(2) show ?thesis by simp
  next
    case False
    with x(2) assms(2) show ?thesis by (simp add: weeklyKey_def)
  qed
next
  case False
  then have no: "\<And>x. x \<in> set (weeklyScores d) \<Longrightarrow> weeklyKey x \<noteq> (u, ws)"
    by (simp add: list_ex_iff weeklyKey_def)
  from assms(1) have "r \<in> set (weeklyScores d) \<or>
      r = \<lparr> ws_id = weeklyScores_seq d, ws_userId = u, ws_weekStart = ws, ws_weekEnd = we,
             ws_avgScore = a, ws_totalEntries = n, ws_createdAt = now \<rparr>"
    unfolding saveWeeklyScore_insert [OF False] by auto
  with no assms(2) show ?thesis by auto
qed

lemma ymd_examples:
  "ymd 2026 2 1 = 20485" "ymd 2026 2 2 = 20486" "ymd 2026 2 4 = 20488" "ymd 2026 2 7 = 20491"
  "ymd 2026 2 8 = 20492" "ymd 2026 2 9 = 20493" "ymd 2026 1 26 = 20479"
  by (simp_all add: ymd_def MakeDay_def DayFromYear_def DaysInYear_def monthStart_def)

lemma filter_update_hd:
  assumes "\<And>r. P (f r) = P r" "filter P rows \<noteq> []"
  shows "hd (filter P (map (\<lambda>r. if P r then f r else r) rows)) = f (hd (filter P rows))"
  using assms(2)
proof (induction rows)
  case Nil
  then show ?case by simp
next
  case (Cons r rows)
  then show ?case by (cases "P r") (simp_all add: assms(1))
qed

text \<open>
  Claim C9.  When the (user, week start) pair has a row, \<open>saveWeeklyScore\<close> changes
  \<open>avgScore\<close> and \<open>totalEntries\<close> of the rows of the pair and nothing else: the
  week ends stored stay, whatever the argument \<open>we\<close> is, no other table changes, and
  the row returned is the first row of the pair with the two fields set.
\<close>

theorem saveWeeklyScore_keeps_weekEnd:
  assumes "list_ex (\<lambda>r. ws_userId r = u \<and> ws_weekStart r = ws) (weeklyScores d)"
  shows "weeklyScores (snd (saveWeeklyScore d now u ws we a n)) =
           map (\<lambda>r. if ws_userId r = u \<and> ws_weekStart r = ws
                     then r\<lparr>ws_avgScore := a, ws_totalEntries := n\<rparr> else r) (weeklyScores d)
         \<and> map ws_weekEnd (weeklyScores (snd (saveWeeklyScore d now u ws we a n)))
             = map ws_weekEnd (weeklyScores d)
         \<and> snd (saveWeeklyScore d now u ws we a n)
             = d\<lparr>weeklyScores := weeklyScores (snd (saveWeeklyScore d now u ws we a n))\<rparr>
         \<and> fst (saveWeeklyScore d now u ws we a n)
             = (hd (filter (\<lambda>r. ws_userId r = u \<and> ws_weekStart r = ws) (weeklyScores d)))
                 \<lparr>ws_avgScore := a, ws_totalEntries := n\<rparr>
         \<and> ws_weekEnd (fst (saveWeeklyScore d now u ws we a n))
             = ws_weekEnd (hd (filter (\<lambda>r. ws_userId r = u \<and> ws_weekStart r = ws)
                                 (weeklyScores d)))"
proof -
  let ?P = "\<lambda>r. ws_userId r = u \<and> ws_weekStart r = ws"
  let ?f = "\<lambda>r. r\<lparr>ws_avgScore := a, ws_totalEntries := n\<rparr>"
  have ne: "filter ?P (weeklyScores d) \<noteq> []"
    using assms by (simp add: filter_nonempty_iff)
  have snd_eq: "snd (saveWeeklyScore d now u ws we a n) =
      d\<lparr>weeklyScores := map (\<lambda>r. if ?P r then ?f r else r) (weeklyScores d)\<rparr>"
    by (rule saveWeeklyScore_update [OF assms])
  have rows: "weeklyScores (snd (saveWeeklyScore d now u ws we a n)) =
      map (\<lambda>r. if ?P r then ?f r else r) (weeklyScores d)"
    by (simp add: snd_eq)
  have ends: "map ws_weekEnd (weeklyScores (snd (saveWeeklyScore d now u ws we a n)))
      = map ws_weekEnd (weeklyScores d)"
    by (simp add: rows o_def if_distrib cong: if_cong)
  have frame: "snd (saveWeeklyScore d now u ws we a n)
      = d\<lparr>weeklyScores := weeklyScores (snd (saveWeeklyScore d now u ws we a n))\<rparr>"
    by (simp add: snd_eq)
  have "fst (saveWeeklyScore d now u ws we a n)
      = hd (filter ?P (map (\<lambda>r. if ?P r then ?f r else r) (weeklyScores d)))"
    using ne by (simp add: saveWeeklyScore_def Let_def)
  also have "\<dots> = ?f (hd (filter ?P (weeklyScores d)))"
    by (rule filter_update_hd [of ?P ?f, OF _ ne]) simp
  finally have ret: "fst (saveWeeklyScore d now u ws we a n) = ?f (hd (filter ?P (weeklyScores d)))" .
  have ret_end: "ws_weekEnd (fst (saveWeeklyScore d now u ws we a n))
      = ws_weekEnd (hd (filter ?P (weeklyScores d)))"
    by (simp add: ret)
  show ?thesis
    by (intro conjI) (fact rows ends frame ret ret_end)+
qed

theorem saveWeeklyScore_keeps_weekEnd_witness:
  "list_ex (\<lambda>r. ws_userId r = 1 \<and> ws_weekStart r = ymd 2026 2 2) (weeklyScores exampleDb)
   \<and> map ws_weekEnd (weeklyScores
        (snd (saveWeeklyScore exampleDb 0 1 (ymd 2026 2 2) (ymd 2026 2 9) (215 / 3) 3)))
       = [ymd 2026 2 8]
   \<and> ws_weekEnd (fst (saveWeeklyScore exampleDb 0 1 (ymd 2026 2 2) (ymd 2026 2 9) (215 / 3) 3))
       = ymd 2026 2 8
   \<and> ymd 2026 2 9 \<noteq> ymd 2026 2 8"
proof -
  have ex: "list_ex (\<lambda>r. ws_userId r = 1 \<and> ws_weekStart r = ymd 2026 2 2) (weeklyScores exampleDb)"
    by (simp add: exampleDb_def exampleWeekly_def)
  have ends: "map ws_weekEnd (weeklyScores exampleDb) = [ymd 2026 2 8]"
    by (simp add: exampleDb_def exampleWeekly_def)
  have first: "ws_weekEnd (hd (filter (\<lambda>r. ws_userId r = 1 \<and> ws_weekStart r = ymd 2026 2 2)
      (weeklyScores exampleDb))) = ymd 2026 2 8"
    by (simp add: exampleDb_def exampleWeekly_def)
  have ne: "ymd 2026 2 9 \<noteq> ymd 2026 2 8"
    by (simp add: ymd_examples)
  note t = saveWeeklyScore_keeps_weekEnd [OF ex, of 0 "ymd 2026 2 9" "215 / 3" 3]
  have a: "map ws_weekEnd (weeklyScores
        (snd (saveWeeklyScore exampleDb 0 1 (ymd 2026 2 2) (ymd 2026 2 9) (215 / 3) 3)))
       = [ymd 2026 2 8]"
    using t [THEN conjunct2, THEN conjunct1] ends by simp
  have b: "ws_weekEnd (fst (saveWeeklyScore exampleDb 0 1 (ymd 2026 2 2) (ymd 2026 2 9) (215 / 3) 3))
       = ymd 2026 2 8"
    using t [THEN conjunct2, THEN conjunct2, THEN conjunct2, THEN conjunct2] first by simp
  show ?thesis
    by (intro conjI) (fact ex a b ne)+
qed

subsection \<open>The calendar\<close>

text \<open>
  \<open>YearFromTime\<close> computes what ECMA-262 defines: the largest year that starts on or
  before the day of the time value; and a year is \<open>DaysInYear\<close> days long.
\<close>

lemma div_bounds:
  fixes z k :: int
  assumes "0 < k"
  shows "k * (z div k) \<le> z" "z < k * (z div k) + k"
proof -
  have "0 \<le> z mod k" "z mod k < k" using assms by simp_all
  then show "k * (z div k) \<le> z" "z < k * (z div k) + k"
    using mult_div_mod_eq [of k z] by linarith+
qed

lemma DayFromYear_bounds:
  "146097 * (y - 1970) - 506 \<le> 400 * DayFromYear y"
  "400 * DayFromYear y \<le> 146097 * (y - 1970) + 589"
proof -
  define a where "a = (y - 1969) div 4"
  define b where "b = (y - 1901) div 100"
  define c where "c = (y - 1601) div 400"
  have a: "4 * a \<le> y - 1969" "y - 1969 < 4 * a + 4"
    unfolding a_def using div_bounds [of 4 "y - 1969"] by simp_all
  have b: "100 * b \<le> y - 1901" "y - 1901 < 100 * b + 100"
    unfolding b_def using div_bounds [of 100 "y - 1901"] by simp_all
  have c: "400 * c \<le> y - 1601" "y - 1601 < 400 * c + 400"
    unfolding c_def using div_bounds [of 400 "y - 1601"] by simp_all
  have d: "DayFromYear y = 365 * (y - 1970) + a - b + c"
    by (simp add: DayFromYear_def a_def b_def c_def)
  have a': "100 * y - 197200 \<le> 400 * a" "400 * a \<le> 100 * y - 196900"
    using a by linarith+
  have b': "4 * y - 8000 \<le> 400 * b" "400 * b \<le> 4 * y - 7604"
    using b by linarith+
  have c': "y - 2000 \<le> 400 * c" "400 * c \<le> y - 1601"
    using c by linarith+
  show "146097 * (y - 1970) - 506 \<le> 400 * DayFromYear y"
    unfolding d using a' b' c' by (simp add: algebra_simps)
  show "400 * DayFromYear y \<le> 146097 * (y - 1970) + 589"
    unfolding d using a' b' c' by (simp add: algebra_simps)
qed

lemma div_succ:
  fixes z k :: int
  assumes "0 < k"
  shows "(z + 1) div k = z div k + (if (z + 1) mod k = 0 then 1 else 0)"
proof -
  have r: "0 \<le> z mod k" "z mod k < k" using assms by simp_all
  have z: "z + 1 = k * (z div k) + (z mod k + 1)"
    using mult_div_mod_eq [of k z] by linarith
  show ?thesis
  proof (cases "z mod k = k - 1")
    case True
    have e: "z + 1 = k * (z div k + 1) + 0"
      using z True by (simp add: algebra_simps)
    have "(z + 1) div k = z div k + 1"
      by (rule int_div_pos_eq [OF e]) (use assms in simp_all)
    moreover have "(z + 1) mod k = 0"
      by (rule int_mod_pos_eq [OF e]) (use assms in simp_all)
    ultimately show ?thesis by simp
  next
    case False
    then have lt: "z mod k + 1 < k" using r by simp
    have "(z + 1) div k = z div k"
      by (rule int_div_pos_eq [OF z]) (use r lt in simp_all)
    moreover have "(z + 1) mod k = z mod k + 1"
      by (rule int_mod_pos_eq [OF z]) (use r lt in simp_all)
    ultimately show ?thesis using r by simp
  qed
qed

lemma mod_shift: "(y + k * c) mod k = y mod (k::int)"
  by (rule mod_mult_self2)

lemma DayFromYear_step: "DayFromYear (y + 1) = DayFromYear y + DaysInYear y"
proof -
  have m4: "(y - 1968) mod 4 = y mod 4"
    using mod_shift [of y 4 "- 492"] by simp
  have m100: "(y - 1900) mod 100 = y mod 100"
    using mod_shift [of y 100 "- 19"] by simp
  have m400: "(y - 1600) mod 400 = y mod 400"
    using mod_shift [of y 400 "- 4"] by simp
  have a: "(y + 1 - 1969) div 4 = (y - 1969) div 4 + (if y mod 4 = 0 then 1 else 0)"
    using div_succ [of 4 "y - 1969"] by (simp add: m4 algebra_simps)
  have b: "(y + 1 - 1901) div 100 = (y - 1901) div 100 + (if y mod 100 = 0 then 1 else 0)"
    using div_succ [of 100 "y - 1901"] by (simp add: m100 algebra_simps)
  have c: "(y + 1 - 1601) div 400 = (y - 1601) div 400 + (if y mod 400 = 0 then 1 else 0)"
    using div_succ [of 400 "y - 1601"] by (simp add: m400 algebra_simps)
  have m: "y mod 400 = 0 \<Longrightarrow> y mod 100 = 0" "y mod 100 = 0 \<Longrightarrow> y mod 4 = 0"
    using mod_mod_cancel [of 100 400 y] mod_mod_cancel [of 4 100 y] by simp_all
  have "DayFromYear (y + 1) =
      365 * (y - 1970) + 365 + ((y - 1969) div 4 + (if y mod 4 = 0 then 1 else 0))
      - ((y - 1901) div 100 + (if y mod 100 = 0 then 1 else 0))
      + ((y - 1601) div 400 + (if y mod 400 = 0 then 1 else 0))"
    unfolding DayFromYear_def a b c by simp
  also have "\<dots> = DayFromYear y + DaysInYear y"
    unfolding DayFromYear_def DaysInYear_def using m by auto
  finally show ?thesis .
qed

lemma DayFromYear_mono: "y \<le> y' \<Longrightarrow> DayFromYear y \<le> DayFromYear y'"
proof (induction y' rule: int_ge_induct)
  case base
  show ?case by simp
next
  case (step i)
  have "0 \<le> DaysInYear i" by (simp add: DaysInYear_def)
  with step show ?case by (simp add: DayFromYear_step)
qed

lemma YearFromTime_spec:
  "DayFromYear (YearFromTime t) \<le> Day t \<and> Day t < DayFromYear (YearFromTime t + 1)"
proof -
  define q where "q = (400 * Day t) div 146097"
  have q: "146097 * q \<le> 400 * Day t" "400 * Day t < 146097 * q + 146097"
    unfolding q_def using div_bounds [of 146097 "400 * Day t"] by simp_all
  have lo: "DayFromYear (1970 + q - 1) \<le> Day t"
    using DayFromYear_bounds(2) [of "1970 + q - 1"] q by simp
  have hi: "Day t < DayFromYear (1970 + q + 2)"
    using DayFromYear_bounds(1) [of "1970 + q + 2"] q by simp
  have y: "YearFromTime t =
      (if Day t < DayFromYear (1970 + q) then 1970 + q - 1
       else if DayFromYear (1970 + q + 1) \<le> Day t then 1970 + q + 1 else 1970 + q)"
    by (simp add: YearFromTime_def Let_def q_def)
  show ?thesis
    unfolding y using lo hi by (auto simp: add.commute add.left_commute)
qed

lemma YearFromTime_largest:
  assumes "DayFromYear y \<le> Day t"
  shows "y \<le> YearFromTime t"
proof (rule ccontr)
  assume "\<not> y \<le> YearFromTime t"
  then have "YearFromTime t + 1 \<le> y" by simp
  then have "DayFromYear (YearFromTime t + 1) \<le> DayFromYear y"
    by (rule DayFromYear_mono)
  with assms YearFromTime_spec [of t] show False by linarith
qed

subsection \<open>Week bounds\<close>

lemma LocalTime_fixed: "LocalTime (fixedZone tza) t = t + tza"
  by (simp add: LocalTime_def fixedZone_def)

lemma UTC_fixed: "UTC (fixedZone tza) t = t - tza"
  by (simp add: UTC_def fixedZone_def)

lemma MonthFromTime_range: "0 \<le> MonthFromTime t \<and> MonthFromTime t \<le> 11"
  by (simp add: MonthFromTime_def Let_def)

lemma InLeapYear_alt: "(if DaysInYear (YearFromTime t) = 366 then 1 else 0) = InLeapYear t"
  by (simp add: InLeapYear_def)

lemma MakeDay_shift:
  "MakeDay (YearFromTime t) (MonthFromTime t) (DateFromTime t + j) = Day t + j"
proof -
  have r: "0 \<le> MonthFromTime t" "MonthFromTime t \<le> 11"
    using MonthFromTime_range [of t] by simp_all
  then have d: "MonthFromTime t div 12 = 0" and m: "MonthFromTime t mod 12 = MonthFromTime t"
    by simp_all
  show ?thesis
    by (simp add: MakeDay_def Let_def d m InLeapYear_alt DateFromTime_def DayWithinYear_def)
qed

lemma Day_MakeDate: "0 \<le> r \<Longrightarrow> r < msPerDay \<Longrightarrow> Day (MakeDate x r) = x"
  by (simp add: Day_def MakeDate_def msPerDay_def div_pos_pos_trivial)

lemma TimeWithinDay_MakeDate: "0 \<le> r \<Longrightarrow> r < msPerDay \<Longrightarrow> TimeWithinDay (MakeDate x r) = r"
  by (simp add: TimeWithinDay_def MakeDate_def msPerDay_def)

lemma TimeWithinDay_range: "0 \<le> TimeWithinDay t \<and> TimeWithinDay t < msPerDay"
  by (simp add: TimeWithinDay_def msPerDay_def)

lemma setDate_shift:
  "setDate (fixedZone tza) t (getDate (fixedZone tza) t + j) =
     MakeDate (Day (t + tza) + j) (TimeWithinDay (t + tza)) - tza"
  by (simp add: setDate_def getDate_def Let_def LocalTime_fixed UTC_fixed MakeDay_shift)

lemma setHours0_setDate_shift:
  "setHours0 (fixedZone tza) (setDate (fixedZone tza) t (getDate (fixedZone tza) t + j))
     = MakeDate (Day (t + tza) + j) 0 - tza"
  using TimeWithinDay_range [of "t + tza"]
  by (simp add: setDate_shift setHours0_def LocalTime_fixed UTC_fixed Day_MakeDate)

lemma getWeekBounds_eq:
  "getWeekBounds (fixedZone tza) now dateStr =
     (let d = (case dateStr of Some s \<Rightarrow> parseDate s | None \<Rightarrow> now);
          m = Day (d + tza) + ((if WeekDay (d + tza) = 0 then - 6 else 1) - WeekDay (d + tza))
      in (Day (MakeDate m 0 - tza), Day (MakeDate (m + 6) 0 - tza)))"
proof -
  define d where "d = (case dateStr of Some s \<Rightarrow> parseDate s | None \<Rightarrow> now)"
  define k where "k = (if WeekDay (d + tza) = 0 then - 6 else 1) - WeekDay (d + tza)"
  have diff: "getDate (fixedZone tza) d - getDay (fixedZone tza) d
        + (if getDay (fixedZone tza) d = 0 then - 6 else 1)
      = getDate (fixedZone tza) d + k"
    by (simp add: k_def getDay_def LocalTime_fixed)
  have monday: "setHours0 (fixedZone tza) (setDate (fixedZone tza) d (getDate (fixedZone tza) d + k))
      = MakeDate (Day (d + tza) + k) 0 - tza"
    by (rule setHours0_setDate_shift)
  have sunday: "setDate (fixedZone tza) (MakeDate (Day (d + tza) + k) 0 - tza)
        (getDate (fixedZone tza) (MakeDate (Day (d + tza) + k) 0 - tza) + 6)
      = MakeDate (Day (d + tza) + k + 6) 0 - tza"
    by (simp add: setDate_shift Day_MakeDate TimeWithinDay_MakeDate msPerDay_def)
  show ?thesis
    unfolding getWeekBounds_def d_def [symmetric] Let_def diff monday sunday isoDate_def
    by (simp add: k_def)
qed

lemma Day_MakeDate0: "Day (MakeDate x 0) = x"
  by (simp add: Day_MakeDate msPerDay_def)

lemma Day_parseDate: "Day (parseDate s) = s"
  by (simp add: Day_def parseDate_def msPerDay_def)

lemma WeekDay_weekdayOf: "WeekDay t = weekdayOf (Day t)"
  by (simp add: weekdayOf_def WeekDay_def Day_parseDate)

lemma getWeekBounds_utc:
  "getWeekBounds (fixedZone 0) now dateStr =
     (let r = (case dateStr of Some s \<Rightarrow> s | None \<Rightarrow> Day now);
          m = r + ((if weekdayOf r = 0 then - 6 else 1) - weekdayOf r)
      in (m, m + 6))"
  by (cases dateStr)
     (simp_all add: getWeekBounds_eq Let_def Day_MakeDate0 WeekDay_weekdayOf Day_parseDate)

lemma weekdayOf_range: "0 \<le> weekdayOf r \<and> weekdayOf r < 7"
  by (simp add: weekdayOf_def WeekDay_def)

lemma weekdayOf_shift: "weekdayOf (r + j) = (weekdayOf r + j) mod 7"
  by (simp add: weekdayOf_def WeekDay_def parseDate_def Day_def msPerDay_def mod_simps algebra_simps)

lemma weekdayOf_eq: "weekdayOf r = (r + 4) mod 7"
  by (simp add: weekdayOf_def WeekDay_def Day_parseDate)

lemma getWeekBounds_utc_week:
  assumes "getWeekBounds (fixedZone 0) now dateStr = (weekStart, weekEnd)"
    and "r = (case dateStr of Some s \<Rightarrow> s | None \<Rightarrow> isoDate now)"
  shows "weekdayOf weekStart = 1" "weekEnd = weekStart + 6" "weekdayOf weekEnd = 0"
    "weekStart \<le> r" "r \<le> weekEnd" "weekdayOf r = 0 \<Longrightarrow> weekStart = r - 6"
proof -
  define k where "k = (if weekdayOf r = 0 then - 6 else 1) - weekdayOf r"
  have r': "(case dateStr of Some s \<Rightarrow> s | None \<Rightarrow> Day now) = r"
    using assms(2) by (cases dateStr) (simp_all add: isoDate_def)
  have "(weekStart, weekEnd) = (r + k, r + k + 6)"
    using assms(1) unfolding getWeekBounds_utc Let_def r' k_def by simp
  then have ws: "weekStart = r + k" and we: "weekEnd = r + k + 6"
    by simp_all
  have rng: "0 \<le> weekdayOf r" "weekdayOf r < 7"
    using weekdayOf_range [of r] by simp_all
  show "weekEnd = weekStart + 6" by (simp add: ws we)
  show "weekStart \<le> r" using rng by (simp add: ws k_def)
  show "r \<le> weekEnd" using rng by (simp add: we k_def)
  show "weekdayOf r = 0 \<Longrightarrow> weekStart = r - 6" by (simp add: ws k_def)
  show "weekdayOf weekStart = 1"
    unfolding ws weekdayOf_shift by (simp add: k_def)
  have "weekdayOf (r + (k + 6)) = 0"
    unfolding weekdayOf_shift by (simp add: k_def)
  then show "weekdayOf weekEnd = 0"
    by (simp add: we add.assoc)
qed

text \<open>
  Claim C2 says that the week returned starts on a Monday, ends on the Sunday six days
  later and contains the reference date.  In UTC it does (\<open>getWeekBounds_utc_week\<close>).
  The function reads the day with the local-time getters and prints the result in UTC, so
  in another time zone it does not: one hour east of UTC the week of Saturday 2026-02-07
  is returned as Sunday 2026-02-01 to Saturday 2026-02-07, and five hours west of UTC the
  week of Monday 2026-02-02 is returned as 2026-01-26 to 2026-02-01, which does not
  contain that Monday.
\<close>

theorem getWeekBounds_local_zone:
  "getWeekBounds (fixedZone 3600000) now (Some (ymd 2026 2 7)) = (ymd 2026 2 1, ymd 2026 2 7)
   \<and> weekdayOf (ymd 2026 2 1) = 0
   \<and> weekdayOf (ymd 2026 2 7) = 6
   \<and> getWeekBounds (fixedZone (- 18000000)) now (Some (ymd 2026 2 2))
       = (ymd 2026 1 26, ymd 2026 2 1)
   \<and> weekdayOf (ymd 2026 2 2) = 1
   \<and> ymd 2026 2 1 < ymd 2026 2 2"
  by (simp add: getWeekBounds_eq ymd_examples parseDate_def Day_def WeekDay_def MakeDate_def
      msPerDay_def weekdayOf_eq)

lemma getWeekBounds_east_of_utc:
  assumes "0 < tza" "tza < msPerDay"
  shows "getWeekBounds (fixedZone tza) now (Some s) =
    (s + ((if weekdayOf s = 0 then - 6 else 1) - weekdayOf s) - 1,
     s + ((if weekdayOf s = 0 then - 6 else 1) - weekdayOf s) + 5)"
proof -
  have d: "Day (parseDate s + tza) = s"
    using assms by (simp add: Day_def parseDate_def msPerDay_def)
  have e: "Day (MakeDate m 0 - tza) = m - 1" for m
  proof -
    have "MakeDate m 0 - tza = MakeDate (m - 1) (msPerDay - tza)"
      by (simp add: MakeDate_def algebra_simps)
    then show ?thesis
      using assms Day_MakeDate [of "msPerDay - tza" "m - 1"] by simp
  qed
  show ?thesis
    by (simp add: getWeekBounds_eq Let_def WeekDay_weekdayOf d e)
qed

lemma getWeekBounds_west_of_utc:
  assumes "- msPerDay < tza" "tza < 0"
  shows "getWeekBounds (fixedZone tza) now (Some s) =
    (s - 1 + ((if weekdayOf (s - 1) = 0 then - 6 else 1) - weekdayOf (s - 1)),
     s - 1 + ((if weekdayOf (s - 1) = 0 then - 6 else 1) - weekdayOf (s - 1)) + 6)"
proof -
  have "parseDate s + tza = MakeDate (s - 1) (msPerDay + tza)"
    by (simp add: MakeDate_def parseDate_def algebra_simps)
  then have d: "Day (parseDate s + tza) = s - 1"
    using assms Day_MakeDate [of "msPerDay + tza" "s - 1"] by simp
  have e: "Day (MakeDate m 0 - tza) = m" for m
    using assms Day_MakeDate [of "- tza" m] by (simp add: MakeDate_def)
  show ?thesis
    by (simp add: getWeekBounds_eq Let_def WeekDay_weekdayOf d e)
qed

subsection \<open>The weekly average\<close>

lemma saveWeeklyScore_dailyScores:
  "dailyScores (snd (saveWeeklyScore d now u ws we a n)) = dailyScores d"
  by (cases "list_ex (\<lambda>r. ws_userId r = u \<and> ws_weekStart r = ws) (weeklyScores d)")
     (simp_all add: saveWeeklyScore_update saveWeeklyScore_insert)

lemma foldl_scores:
  "foldl (\<lambda>sum s. float64 (sum + ds_score s)) a rs
     = foldl (\<lambda>sum x. float64 (sum + x)) a (map ds_score rs)"
  by (induction rs arbitrary: a) simp_all

lemma refreshWeekly_eq:
  "refreshWeekly env d now u dt =
     (let w = getWeekBounds (LocalTZA env) now (Some dt);
          rs = getDailyScores d u (fst w) (snd w)
      in if rs \<noteq> []
         then snd (saveWeeklyScore d now u (fst w) (snd w)
                     (realColumn (Fin (roundedAverage (map ds_score rs)))) (int (length rs)))
         else d)"
proof -
  obtain a b where w: "getWeekBounds (LocalTZA env) now (Some dt) = (a, b)"
    by (cases "getWeekBounds (LocalTZA env) now (Some dt)")
  show ?thesis
    unfolding refreshWeekly_def w Let_def prod.case fst_conv snd_conv roundedAverage_def
      foldl_scores
    by simp
qed

text \<open>
  The arithmetic is that of doubles: for the scores 0.85, 60 and 80 (as doubles) the
  exact mean is 46.95, which rounds to 47.0, and the number computed is the double
  nearest to 46.9.
\<close>

lemma roundedAverage_in_doubles:
  "(17 / 20 + 60 + 80) / 3 = (939 / 20 :: rat)"
  "Math_round (939 / 20 * 10) / 10 = 47"
  "roundedAverage [float64 (17 / 20), 60, 80] = float64 (469 / 10)"
  by (simp add: Math_round_def, simp add: Math_round_def, code_simp)

lemma refreshWeekly_dailyScores: "dailyScores (refreshWeekly env d now u dt) = dailyScores d"
  by (simp add: refreshWeekly_eq Let_def saveWeeklyScore_dailyScores)

lemma saveDailyScore_in_window:
  assumes "a \<le> dt" "dt \<le> b"
  shows "getDailyScores (snd (saveDailyScore d now u dt s i)) u a b \<noteq> []"
proof -
  let ?d1 = "snd (saveDailyScore d now u dt s i)"
  have "(u, dt) \<in> set (map dailyKey (dailyScores ?d1))"
    by (simp add: saveDailyScore_keys)
  then obtain r where r: "r \<in> set (dailyScores ?d1)" "dailyKey r = (u, dt)"
    by auto
  have "ds_userId r = u" "ds_date r = dt"
    using r(2) by (simp_all add: dailyKey_def)
  then have "r \<in> set (getDailyScores ?d1 u a b)"
    using r(1) assms by (simp add: getDailyScores_def orderByDesc_def)
  then show ?thesis
    by auto
qed

lemma refreshWeekly_row:
  assumes "getDailyScores d u (fst (getWeekBounds (LocalTZA env) now (Some dt)))
             (snd (getWeekBounds (LocalTZA env) now (Some dt))) = rs" "rs \<noteq> []"
  shows "(u, fst (getWeekBounds (LocalTZA env) now (Some dt)))
           \<in> set (map weeklyKey (weeklyScores (refreshWeekly env d now u dt)))"
    and "r \<in> set (weeklyScores (refreshWeekly env d now u dt)) \<Longrightarrow>
         weeklyKey r = (u, fst (getWeekBounds (LocalTZA env) now (Some dt))) \<Longrightarrow>
         ws_avgScore r = realColumn (Fin (roundedAverage (map ds_score rs)))
         \<and> ws_totalEntries r = int (length rs)"
proof -
  let ?w = "getWeekBounds (LocalTZA env) now (Some dt)"
  have eq: "refreshWeekly env d now u dt =
      snd (saveWeeklyScore d now u (fst ?w) (snd ?w)
             (realColumn (Fin (roundedAverage (map ds_score rs)))) (int (length rs)))"
    using assms by (simp add: refreshWeekly_eq Let_def)
  show "(u, fst ?w) \<in> set (map weeklyKey (weeklyScores (refreshWeekly env d now u dt)))"
    unfolding eq by (simp add: saveWeeklyScore_keys)
  assume "r \<in> set (weeklyScores (refreshWeekly env d now u dt))" "weeklyKey r = (u, fst ?w)"
  then show "ws_avgScore r = realColumn (Fin (roundedAverage (map ds_score rs)))
      \<and> ws_totalEntries r = int (length rs)"
    unfolding eq by (rule saveWeeklyScore_values)
qed

subsection \<open>The scoring route\<close>

lemma sort_key_Nil_iff: "(sort_key k xs = []) = (xs = [])"
  by (metis length_sort length_0_conv)

lemma getEntriesByDate_Nil_iff:
  "(getEntriesByDate d u dt = []) =
     (\<not> list_ex (\<lambda>e. e_userId e = u \<and> e_date e = dt) (productivityEntries d))"
  by (simp add: getEntriesByDate_def orderByDesc_def sort_key_Nil_iff
      filter_nonempty_iff [symmetric])

lemma route_scoreDaily_no_entries:
  assumes "u \<noteq> 0"
    and "getEntriesByDate d u (case bodyDate of Some s \<Rightarrow> s | None \<Rightarrow> isoDate now) = []"
  shows "route_scoreDaily env ai d now (Some u) bodyDate =
    (Response 200
       (JObj [(''score'', JNum (Fin 0)),
              (''insight'', JStr ''No activities logged today. Start tracking to get your productivity score!'')]),
     d, [])"
  using assms by (simp add: route_scoreDaily_def requireAuth_def Let_def)

lemma route_scoreDaily_persist:
  assumes "u \<noteq> 0"
    and "dt = (case bodyDate of Some s \<Rightarrow> s | None \<Rightarrow> isoDate now)"
    and "getEntriesByDate d u dt \<noteq> []"
    and "ai (scorePrompt env (getUserById d u) dt (getEntriesByDate d u dt)) = Content c"
    and "getProp (parseContent env (contentOf c)) ''score'' = Inr sv"
    and "getProp (parseContent env (contentOf c)) ''insight'' = Inr iv"
  shows "route_scoreDaily env ai d now (Some u) bodyDate =
    (Response 200
       (JObj [(''score'', JNum (clampScore env sv)),
              (''insight'', jsOr iv (JStr ''Keep pushing your productivity!'')),
              (''date'', JStr (dateString env dt))]),
     refreshWeekly env
       (snd (saveDailyScore d now u dt (realColumn (clampScore env sv))
               (jsOr iv (JStr ''Keep pushing your productivity!''))))
       now u dt,
     [scorePrompt env (getUserById d u) dt (getEntriesByDate d u dt)])"
  using assms(1,3,4,5,6) unfolding assms(2)
  by (simp add: route_scoreDaily_def requireAuth_def Let_def)

text \<open>
  What the scoring route leaves in the store when it persists a daily score for user
  \<open>u\<close> and date \<open>dt\<close>: that score for (u, dt), and, for the window \<open>w\<close> that
  \<open>getWeekBounds\<close> computes for \<open>dt\<close> and the daily scores \<open>rs\<close> of the user in it, a
  weekly row for (u, week start) with the rounded average of \<open>rs\<close> and their number.
  In UTC the window is the Monday to Sunday week that contains \<open>dt\<close>, so \<open>rs\<close> is
  not empty.
\<close>

lemma scoring_weekly_row:
  assumes "u \<noteq> 0"
    and "dt = (case bodyDate of Some s \<Rightarrow> s | None \<Rightarrow> isoDate now)"
    and "getEntriesByDate d u dt \<noteq> []"
    and "ai (scorePrompt env (getUserById d u) dt (getEntriesByDate d u dt)) = Content c"
    and "getProp (parseContent env (contentOf c)) ''score'' = Inr sv"
    and "getProp (parseContent env (contentOf c)) ''insight'' = Inr iv"
    and "d2 = fst (snd (route_scoreDaily env ai d now (Some u) bodyDate))"
    and "w = getWeekBounds (LocalTZA env) now (Some dt)"
    and "rs = getDailyScores d2 u (fst w) (snd w)"
  shows "(u, dt) \<in> set (map dailyKey (dailyScores d2))
    \<and> (\<forall>r \<in> set (dailyScores d2).
          dailyKey r = (u, dt) \<longrightarrow> ds_score r = realColumn (clampScore env sv))
    \<and> (rs \<noteq> [] \<longrightarrow>
          (u, fst w) \<in> set (map weeklyKey (weeklyScores d2))
          \<and> (\<forall>r \<in> set (weeklyScores d2).
                weeklyKey r = (u, fst w) \<longrightarrow>
                ws_avgScore r = realColumn (Fin (roundedAverage (map ds_score rs)))
                \<and> ws_totalEntries r = int (length rs)))
    \<and> (LocalTZA env = fixedZone 0 \<longrightarrow>
          rs \<noteq> [] \<and> weekdayOf (fst w) = 1 \<and> snd w = fst w + 6
          \<and> fst w \<le> dt \<and> dt \<le> snd w)"
proof -
  let ?s = "realColumn (clampScore env sv)"
  let ?i = "jsOr iv (JStr ''Keep pushing your productivity!'')"
  let ?d1 = "snd (saveDailyScore d now u dt ?s ?i)"
  have d2: "d2 = refreshWeekly env ?d1 now u dt"
    unfolding assms(7)
    using route_scoreDaily_persist [where u = u and dt = dt and bodyDate = bodyDate and now = now
        and d = d and ai = ai and env = env and c = c and sv = sv and iv = iv] assms(1-6) by simp
  have daily: "dailyScores d2 = dailyScores ?d1"
    unfolding d2 by (rule refreshWeekly_dailyScores)
  have rs: "getDailyScores ?d1 u (fst (getWeekBounds (LocalTZA env) now (Some dt)))
      (snd (getWeekBounds (LocalTZA env) now (Some dt))) = rs"
    unfolding assms(9) assms(8) getDailyScores_def daily ..
  have c1: "(u, dt) \<in> set (map dailyKey (dailyScores d2))"
    unfolding daily by (simp add: saveDailyScore_keys)
  have c2: "\<forall>r \<in> set (dailyScores d2). dailyKey r = (u, dt) \<longrightarrow> ds_score r = ?s"
    unfolding daily using saveDailyScore_values by blast
  have c3: "rs \<noteq> [] \<longrightarrow>
      (u, fst w) \<in> set (map weeklyKey (weeklyScores d2))
      \<and> (\<forall>r \<in> set (weeklyScores d2).
            weeklyKey r = (u, fst w) \<longrightarrow>
            ws_avgScore r = realColumn (Fin (roundedAverage (map ds_score rs)))
            \<and> ws_totalEntries r = int (length rs))"
    unfolding d2 assms(8) using refreshWeekly_row [OF rs] by blast
  have c4: "LocalTZA env = fixedZone 0 \<longrightarrow>
      rs \<noteq> [] \<and> weekdayOf (fst w) = 1 \<and> snd w = fst w + 6 \<and> fst w \<le> dt \<and> dt \<le> snd w"
  proof
    assume utc: "LocalTZA env = fixedZone 0"
    have w: "getWeekBounds (fixedZone 0) now (Some dt) = (fst w, snd w)"
      by (simp add: assms(8) utc)
    note week = getWeekBounds_utc_week [OF w, of dt]
    have lo: "fst w \<le> dt" and hi: "dt \<le> snd w"
      using week(4,5) by simp_all
    have "getDailyScores ?d1 u (fst w) (snd w) \<noteq> []"
      by (rule saveDailyScore_in_window [OF lo hi])
    then have "rs \<noteq> []"
      using rs by (simp add: assms(8))
    then show "rs \<noteq> [] \<and> weekdayOf (fst w) = 1 \<and> snd w = fst w + 6 \<and> fst w \<le> dt \<and> dt \<le> snd w"
      using week(1,2) lo hi by simp
  qed
  show ?thesis
    by (intro conjI) (fact c1 c2 c3 c4)+
qed

text \<open>
  Claim C1 says that after a daily score is persisted, the weekly aggregate of the
  enclosing Monday to Sunday week holds the rounded mean and the number of all daily
  scores of that week.  The route takes the week from \<open>getWeekBounds\<close>, so it inherits
  what that function does outside UTC.  One hour east of UTC, the user has scores of 80,
  60 and 20 on Monday 2026-02-02, Wednesday 2026-02-04 and Sunday 2026-02-08 and a
  weekly row of 70 over 2 scores for the week of Monday 2026-02-02; a score of 100 is
  then persisted for Saturday 2026-02-07.  The four scores of the week have the mean 65.
  The route computes the window Sunday 2026-02-01 to Saturday 2026-02-07, writes a new
  row for it with 80 over 3 scores, and leaves the row of the week at 70 over 2.  Five
  hours west of UTC, a first score, for Monday 2026-02-02, is persisted and no weekly
  row is written at all: the computed window ends on Sunday 2026-02-01.
\<close>

theorem weekly_average_window_off_utc:
  "getWeekBounds (LocalTZA eastEnv) 1770580800000 (Some (ymd 2026 2 7))
     = (ymd 2026 2 1, ymd 2026 2 7)
   \<and> weekdayOf (ymd 2026 2 1) = 0
   \<and> weekdayOf (ymd 2026 2 2) = 1
   \<and> fst (route_scoreDaily eastEnv (\<lambda>p. Content (Some fullReply)) sundayScoreDb
            1770580800000 (Some 1) (Some (ymd 2026 2 7)))
       = Response 200 (JObj [(''score'', JNum (Fin 100)), (''insight'', JStr ''Great.''),
                             (''date'', JStr ''2026-02-07'')])
   \<and> map (\<lambda>r. (ds_userId r, ds_date r, ds_score r))
        (dailyScores (fst (snd (route_scoreDaily eastEnv (\<lambda>p. Content (Some fullReply))
           sundayScoreDb 1770580800000 (Some 1) (Some (ymd 2026 2 7))))))
       = [(1, ymd 2026 2 2, 80), (1, ymd 2026 2 4, 60), (1, ymd 2026 2 8, 20),
          (1, ymd 2026 2 7, 100)]
   \<and> (80 + 60 + 20 + 100) / 4 = (65::rat)
   \<and> map (\<lambda>r. (ws_userId r, ws_weekStart r, ws_weekEnd r, ws_avgScore r, ws_totalEntries r))
        (weeklyScores (fst (snd (route_scoreDaily eastEnv (\<lambda>p. Content (Some fullReply))
           sundayScoreDb 1770580800000 (Some 1) (Some (ymd 2026 2 7))))))
       = [(1, ymd 2026 2 2, ymd 2026 2 8, 70, 2), (1, ymd 2026 2 1, ymd 2026 2 7, 80, 3)]
   \<and> getWeekBounds (LocalTZA westEnv) 1770030000000 (Some (ymd 2026 2 2))
       = (ymd 2026 1 26, ymd 2026 2 1)
   \<and> map (\<lambda>r. (ds_userId r, ds_date r, ds_score r))
        (dailyScores (fst (snd (route_scoreDaily westEnv (\<lambda>p. Content (Some fullReply))
           mondayDb 1770030000000 (Some 1) (Some (ymd 2026 2 2))))))
       = [(1, ymd 2026 2 2, 100)]
   \<and> weeklyScores (fst (snd (route_scoreDaily westEnv (\<lambda>p. Content (Some fullReply))
        mondayDb 1770030000000 (Some 1) (Some (ymd 2026 2 2))))) = []"
proof -
  have c1: "getWeekBounds (LocalTZA eastEnv) 1770580800000 (Some (ymd 2026 2 7))
      = (ymd 2026 2 1, ymd 2026 2 7)"
    by code_simp
  have c2: "weekdayOf (ymd 2026 2 1) = 0" "weekdayOf (ymd 2026 2 2) = 1"
    by (simp_all add: ymd_examples weekdayOf_eq)
  have c3: "fst (route_scoreDaily eastEnv (\<lambda>p. Content (Some fullReply)) sundayScoreDb
            1770580800000 (Some 1) (Some (ymd 2026 2 7)))
       = Response 200 (JObj [(''score'', JNum (Fin 100)), (''insight'', JStr ''Great.''),
                             (''date'', JStr ''2026-02-07'')])"
    by code_simp
  have c4: "map (\<lambda>r. (ds_userId r, ds_date r, ds_score r))
        (dailyScores (fst (snd (route_scoreDaily eastEnv (\<lambda>p. Content (Some fullReply))
           sundayScoreDb 1770580800000 (Some 1) (Some (ymd 2026 2 7))))))
       = [(1, ymd 2026 2 2, 80), (1, ymd 2026 2 4, 60), (1, ymd 2026 2 8, 20),
          (1, ymd 2026 2 7, 100)]"
    by code_simp
  have c5: "(80 + 60 + 20 + 100) / 4 = (65::rat)"
    by simp
  have c6: "map (\<lambda>r. (ws_userId r, ws_weekStart r, ws_weekEnd r, ws_avgScore r, ws_totalEntries r))
        (weeklyScores (fst (snd (route_scoreDaily eastEnv (\<lambda>p. Content (Some fullReply))
           sundayScoreDb 1770580800000 (Some 1) (Some (ymd 2026 2 7))))))
       = [(1, ymd 2026 2 2, ymd 2026 2 8, 70, 2), (1, ymd 2026 2 1, ymd 2026 2 7, 80, 3)]"
    by code_simp
  have c7: "getWeekBounds (LocalTZA westEnv) 1770030000000 (Some (ymd 2026 2 2))
       = (ymd 2026 1 26, ymd 2026 2 1)"
    by code_simp
  have c8: "map (\<lambda>r. (ds_userId r, ds_date r, ds_score r))
        (dailyScores (fst (snd (route_scoreDaily westEnv (\<lambda>p. Content (Some fullReply))
           mondayDb 1770030000000 (Some 1) (Some (ymd 2026 2 2))))))
       = [(1, ymd 2026 2 2, 100)]"
    by code_simp
  have c9: "weeklyScores (fst (snd (route_scoreDaily westEnv (\<lambda>p. Content (Some fullReply))
        mondayDb 1770030000000 (Some 1) (Some (ymd 2026 2 2))))) = []"
    by code_simp
  show ?thesis
    by (intro conjI) (fact c1 c2 c3 c4 c5 c6 c7 c8 c9)+
qed

text \<open>
  Claim C6.  For an authenticated user without an entry on the date (the one of the
  request body, or today's), the scoring route answers score 0 with the fixed message,
  returns the store as it was (no daily score, no weekly aggregate is written) and sends
  no prompt to the external service.
\<close>

theorem no_entries_short_circuit:
  assumes "u \<noteq> 0"
    and "\<not> list_ex (\<lambda>e. e_userId e = u
                \<and> e_date e = (case bodyDate of Some s \<Rightarrow> s | None \<Rightarrow> isoDate now))
           (productivityEntries d)"
  shows "route_scoreDaily env ai d now (Some u) bodyDate =
    (Response 200
       (JObj [(''score'', JNum (Fin 0)),
              (''insight'', JStr ''No activities logged today. Start tracking to get your productivity score!'')]),
     d, [])"
  using assms route_scoreDaily_no_entries [where u = u and d = d and bodyDate = bodyDate
      and now = now and env = env and ai = ai]
  by (simp add: getEntriesByDate_Nil_iff)

theorem no_entries_short_circuit_witness:
  "(1::int) \<noteq> 0
   \<and> \<not> list_ex (\<lambda>e. e_userId e = 1 \<and> e_date e = ymd 2026 2 8) (productivityEntries exampleDb)
   \<and> route_scoreDaily exampleEnv (\<lambda>p. Content (Some ''{}'')) exampleDb 1770548400000 (Some 1)
        (Some (ymd 2026 2 8)) =
      (Response 200
         (JObj [(''score'', JNum (Fin 0)),
                (''insight'', JStr ''No activities logged today. Start tracking to get your productivity score!'')]),
       exampleDb, [])
   \<and> isoDate 1770548400000 = ymd 2026 2 8
   \<and> route_scoreDaily exampleEnv (\<lambda>p. Throws) exampleDb 1770548400000 (Some 1) None =
      (Response 200
         (JObj [(''score'', JNum (Fin 0)),
                (''insight'', JStr ''No activities logged today. Start tracking to get your productivity score!'')]),
       exampleDb, [])"
proof -
  have u: "(1::int) \<noteq> 0" by simp
  have none: "\<not> list_ex (\<lambda>e. e_userId e = 1 \<and> e_date e = ymd 2026 2 8)
      (productivityEntries exampleDb)"
    by (simp add: exampleDb_def exampleEntries_def ymd_examples)
  have today: "isoDate 1770548400000 = ymd 2026 2 8"
    by (simp add: isoDate_def Day_def msPerDay_def ymd_examples)
  have none': "\<not> list_ex (\<lambda>e. e_userId e = 1
        \<and> e_date e = (case None of Some s \<Rightarrow> s | None \<Rightarrow> isoDate 1770548400000))
      (productivityEntries exampleDb)"
    using none by (simp add: today)
  have none'': "\<not> list_ex (\<lambda>e. e_userId e = 1
        \<and> e_date e = (case Some (ymd 2026 2 8) of Some s \<Rightarrow> s | None \<Rightarrow> isoDate 1770548400000))
      (productivityEntries exampleDb)"
    using none by simp
  show ?thesis
    using no_entries_short_circuit [OF u none'', where env = exampleEnv
          and ai = "\<lambda>p. Content (Some ''{}'')"]
      no_entries_short_circuit [OF u none', where env = exampleEnv and ai = "\<lambda>p. Throws"]
      none today
    by simp
qed


lemma example_score: "getProp (parseContent exampleEnv (contentOf (Some exampleReply))) ''score''
      = Inr (JNum (Fin 75))"
  by code_simp

lemma example_insight: "getProp (parseContent exampleEnv (contentOf (Some exampleReply))) ''insight''
      = Inr (JStr ''Solid day.'')"
  by code_simp

lemma example_week: "getWeekBounds (LocalTZA exampleEnv) 1770462000000 (Some (ymd 2026 2 7))
      = (ymd 2026 2 2, ymd 2026 2 8)"
  by code_simp

subsection \<open>Clamping and parsing\<close>

lemma orFifty_cases:
  "orFifty NaN = Fin 50" "orFifty (Fin 0) = Fin 50" "x \<noteq> 0 \<Longrightarrow> orFifty (Fin x) = Fin x"
  "orFifty PosInf = PosInf" "orFifty NegInf = NegInf"
  by (simp_all add: orFifty_def)

lemma clampScore_cases:
  "ToNumber env v = NaN \<Longrightarrow> clampScore env v = Fin 50"
  "ToNumber env v = Fin 0 \<Longrightarrow> clampScore env v = Fin 50"
  "ToNumber env v = Fin x \<Longrightarrow> x \<noteq> 0 \<Longrightarrow> clampScore env v = Fin (min 100 (max 0 x))"
  "ToNumber env v = PosInf \<Longrightarrow> clampScore env v = Fin 100"
  "ToNumber env v = NegInf \<Longrightarrow> clampScore env v = Fin 0"
  by (auto simp: clampScore_def orFifty_cases Math_min_def Math_max_def min_def max_def)

lemma clampScore_finite:
  "\<exists>x. clampScore env v = Fin x \<and> 0 \<le> x \<and> x \<le> 100"
proof (cases "ToNumber env v")
  case (Fin x)
  then show ?thesis
    by (cases "x = 0") (auto simp: clampScore_cases)
qed (simp_all add: clampScore_cases)

lemma clampScore_in_range:
  "ToNumber env v = Fin x \<Longrightarrow> x \<noteq> 0 \<Longrightarrow>
     clampScore env v = Fin (if x < 0 then 0 else if 100 < x then 100 else x)"
  by (auto simp: clampScore_cases)

text \<open>
  Claim C4 says that a score in the range 0 to 100 persists unchanged.  A score other than
  0 is clamped as the claim says and a missing or non-numeric one becomes 50
  (\<open>clampScore_cases\<close>), but \<open>Number(parsed.score) || 50\<close> takes the number 0 for
  a missing one: when the external service answers with score 0, the response and the
  row persisted hold 50.  (A score \<open>true\<close> is converted to 1, not replaced by 50.)
\<close>

theorem score_zero_becomes_fifty:
  "getProp (parseContent exampleEnv (contentOf (Some zeroReply))) ''score'' = Inr (JNum (Fin 0))
   \<and> clampScore exampleEnv (JNum (Fin 0)) = Fin 50
   \<and> clampScore exampleEnv (JBool True) = Fin 1
   \<and> fst (route_scoreDaily exampleEnv (\<lambda>p. Content (Some zeroReply)) exampleDb 1770462000000
            (Some 1) (Some (ymd 2026 2 7)))
       = Response 200 (JObj [(''score'', JNum (Fin 50)), (''insight'', JStr ''Rest day.''),
                             (''date'', JStr ''2026-02-07'')])
   \<and> map (\<lambda>r. (ds_date r, ds_score r))
        (dailyScores (fst (snd (route_scoreDaily exampleEnv (\<lambda>p. Content (Some zeroReply))
                                  exampleDb 1770462000000 (Some 1) (Some (ymd 2026 2 7))))))
       = [(ymd 2026 2 2, 80), (ymd 2026 2 4, 60), (ymd 2026 2 7, 50)]"
  by code_simp













subsection \<open>The chat context\<close>

lemma saveChatMessage_frame:
  "getEntriesByDateRange (snd (saveChatMessage d now u role content)) u' a b
     = getEntriesByDateRange d u' a b"
  "getDailyScores (snd (saveChatMessage d now u role content)) u' a b = getDailyScores d u' a b"
  by (simp_all add: saveChatMessage_def Let_def getEntriesByDateRange_def getDailyScores_def)

lemma chatContext_saved:
  "chatContext env (snd (saveChatMessage d now u role content)) now' u' user h msg
     = chatContext env d now' u' user h msg"
  by (simp add: chatContext_def saveChatMessage_frame)

lemma route_chat_calls:
  assumes "u \<noteq> 0" "msg \<noteq> []"
  shows "snd (snd (route_chat env ai d now (Some u) (Some msg)))
     = [chatContext env d now u (getUserById d u) (getChatMessages d u) msg]"
proof -
  obtain chunks ok where s:
    "ai (chatContext env d now u (getUserById d u) (getChatMessages d u) msg) = Streamed chunks ok"
    by (cases "ai (chatContext env d now u (getUserById d u) (getChatMessages d u) msg)")
  show ?thesis
    using assms by (simp add: route_chat_def requireAuth_def Let_def chatContext_saved s)
qed

lemma entriesSummary_first20:
  "entriesSummary env es =
     (if es = [] then ''No recent activities logged.''
      else joinWith nl (map (chatEntryLine env) (take 20 es)))"
  by (simp add: entriesSummary_def sliceFirst_def)

text \<open>
  The shape of the context.  For an authenticated user and a message that is not empty,
  exactly one context is sent to the external service: the system instruction built from
  the user's profile, the summary of the entries in the window \<open>w\<close> that
  \<open>getWeekBounds\<close> computes for the time of the request, and the scores in it; then the
  last 20 turns of the history \<open>h\<close> read before the new message was saved (all of them
  when there are fewer), in chronological order; then the new message with role
  \<open>user\<close>.  The history is that of the requesting user.  With 25 prior turns the turns
  sent are those after the first five.  The summary of the entries lists the first 20 at
  most of the entries in the window, which are ordered from the most recent one.
\<close>

lemma chat_context_structure:
  assumes "u \<noteq> 0" "msg \<noteq> []"
    and "h = getChatMessages d u"
    and "w = getWeekBounds (LocalTZA env) now None"
    and "es = getEntriesByDateRange d u (fst w) (snd w)"
    and "ss = getDailyScores d u (fst w) (snd w)"
  shows "snd (snd (route_chat env ai d now (Some u) (Some msg))) =
           [(''system'',
             systemPrompt (getUserById d u) (entriesSummary env es) (scoresSummary env ss))
            # map (\<lambda>m. (m_role m, m_content m)) (drop (length h - 20) h)
            @ [(''user'', msg)]]
    \<and> length (drop (length h - 20) h) = min 20 (length h)
    \<and> (length h = 25 \<longrightarrow> drop (length h - 20) h = drop 5 h \<and> length (drop 5 h) = 20)
    \<and> sorted (map m_createdAt h)
    \<and> entriesSummary env es =
        (if es = [] then ''No recent activities logged.''
         else joinWith nl (map (chatEntryLine env) (take 20 es)))
    \<and> length (take 20 es) \<le> 20
    \<and> sorted (map (\<lambda>e. - e_createdAt e) es)
    \<and> set h = {m \<in> set (chatMessages d). m_userId m = u}
    \<and> set es = {e \<in> set (productivityEntries d).
                   e_userId e = u \<and> fst w \<le> e_date e \<and> e_date e \<le> snd w}
    \<and> set ss = {r \<in> set (dailyScores d).
                   ds_userId r = u \<and> fst w \<le> ds_date r \<and> ds_date r \<le> snd w}"
proof -
  have c1: "snd (snd (route_chat env ai d now (Some u) (Some msg))) =
           [(''system'',
             systemPrompt (getUserById d u) (entriesSummary env es) (scoresSummary env ss))
            # map (\<lambda>m. (m_role m, m_content m)) (drop (length h - 20) h)
            @ [(''user'', msg)]]"
    unfolding route_chat_calls [OF assms(1,2)] assms(3-6)
    by (simp add: chatContext_def sliceLast_def split: prod.splits)
  have c2: "length (drop (length h - 20) h) = min 20 (length h)"
    by simp
  have c3: "length h = 25 \<longrightarrow> drop (length h - 20) h = drop 5 h \<and> length (drop 5 h) = 20"
    by simp
  have c4: "sorted (map m_createdAt h)"
    unfolding assms(3) getChatMessages_def by (rule sorted_sort_key)
  have c5: "entriesSummary env es =
        (if es = [] then ''No recent activities logged.''
         else joinWith nl (map (chatEntryLine env) (take 20 es)))"
    by (rule entriesSummary_first20)
  have c6: "length (take 20 es) \<le> 20"
    by simp
  have c7: "sorted (map (\<lambda>e. - e_createdAt e) es)"
    unfolding assms(5) getEntriesByDateRange_def orderByDesc_def by (rule sorted_sort_key)
  have c8: "set h = {m \<in> set (chatMessages d). m_userId m = u}"
    unfolding assms(3) getChatMessages_def by auto
  have c9: "set es = {e \<in> set (productivityEntries d).
                   e_userId e = u \<and> fst w \<le> e_date e \<and> e_date e \<le> snd w}"
    unfolding assms(5) getEntriesByDateRange_def orderByDesc_def by auto
  have c10: "set ss = {r \<in> set (dailyScores d).
                   ds_userId r = u \<and> fst w \<le> ds_date r \<and> ds_date r \<le> snd w}"
    unfolding assms(6) getDailyScores_def orderByDesc_def by auto
  show ?thesis
    by (intro conjI) (fact c1 c2 c3 c4 c5 c6 c7 c8 c9 c10)+
qed

lemma chat_example:
  "length (getChatMessages chatDb 1) = 25"
  "map m_id (drop 5 (getChatMessages chatDb 1)) = [6..25]"
  by code_simp+

lemma chat_context_structure_example:
  "(1::int) \<noteq> 0 \<and> ''How am I doing?'' \<noteq> []
   \<and> length (getChatMessages chatDb 1) = 25
   \<and> map m_id (drop 5 (getChatMessages chatDb 1)) = [6..25]
   \<and> length (hd (snd (snd (route_chat exampleEnv exampleStream chatDb 1770462000000 (Some 1)
                             (Some ''How am I doing?''))))) = 22
   \<and> map fst (hd (snd (snd (route_chat exampleEnv exampleStream chatDb 1770462000000 (Some 1)
                             (Some ''How am I doing?'')))))
       = ''system'' # map m_role (drop 5 (getChatMessages chatDb 1)) @ [''user'']
   \<and> map snd (tl (hd (snd (snd (route_chat exampleEnv exampleStream chatDb 1770462000000
                                   (Some 1) (Some ''How am I doing?''))))))
       = map m_content (drop 5 (getChatMessages chatDb 1)) @ [''How am I doing?'']"
proof -
  have u: "(1::int) \<noteq> 0" and m: "''How am I doing?'' \<noteq> []" by simp_all
  note t = chat_context_structure [where env = exampleEnv and ai = exampleStream
      and now = 1770462000000, OF u m refl refl refl refl]
  note calls = t [THEN conjunct1]
  have d5: "drop (length (getChatMessages chatDb 1) - 20) (getChatMessages chatDb 1)
      = drop 5 (getChatMessages chatDb 1)"
    and l5: "length (drop 5 (getChatMessages chatDb 1)) = 20"
    using t [THEN conjunct2, THEN conjunct2, THEN conjunct1] chat_example(1) by simp_all
  have a: "length (hd (snd (snd (route_chat exampleEnv exampleStream chatDb 1770462000000
      (Some 1) (Some ''How am I doing?''))))) = 22"
    unfolding calls d5 by (simp add: chat_example(1))
  have b: "map fst (hd (snd (snd (route_chat exampleEnv exampleStream chatDb 1770462000000
      (Some 1) (Some ''How am I doing?'')))))
       = ''system'' # map m_role (drop 5 (getChatMessages chatDb 1)) @ [''user'']"
    unfolding calls d5 by (simp add: o_def)
  have c: "map snd (tl (hd (snd (snd (route_chat exampleEnv exampleStream chatDb 1770462000000
      (Some 1) (Some ''How am I doing?''))))))
       = map m_content (drop 5 (getChatMessages chatDb 1)) @ [''How am I doing?'']"
    unfolding calls d5 by (simp add: o_def)
  show ?thesis
    by (intro conjI) (fact u m chat_example a b c)+
qed

text \<open>
  Claim C8 says that the system instruction summarises the entries and the scores of the
  current week.  The route takes the week from \<open>getWeekBounds\<close>, so it inherits what that
  function does east of UTC.  One hour east of UTC, on Sunday 2026-02-08 at 12:00 UTC,
  the user has three entries in the week of Monday 2026-02-02, two of Saturday and one
  of that Sunday, and 25 chat turns; another user has one turn.  The window computed is
  Sunday 2026-02-01 to Saturday 2026-02-07 (in UTC it is Monday 2026-02-02 to Sunday
  2026-02-08).  The one context sent is the system instruction with the profile, the
  scores and the two entries of Saturday, without the entry of the day; then the turns
  6 to 25 of the user; then the new message.
\<close>

theorem chat_context_window_east_of_utc:
  "isoDate 1770552000000 = ymd 2026 2 8
   \<and> weekdayOf (ymd 2026 2 8) = 0
   \<and> weekdayOf (ymd 2026 2 2) = 1
   \<and> map (\<lambda>e. (e_userId e, e_title e, e_date e)) (productivityEntries sundayEntryDb)
       = [(1, ''Code review'', ymd 2026 2 7), (1, ''Run'', ymd 2026 2 7),
          (1, ''Walk'', ymd 2026 2 8)]
   \<and> getWeekBounds (LocalTZA exampleEnv) 1770552000000 None = (ymd 2026 2 2, ymd 2026 2 8)
   \<and> getWeekBounds (LocalTZA eastEnv) 1770552000000 None = (ymd 2026 2 1, ymd 2026 2 7)
   \<and> snd (snd (route_chat eastEnv exampleStream sundayEntryDb 1770552000000 (Some 1)
                  (Some ''How was my week?'')))
       = [(''system'',
            ''You are an expert productivity coach. You help users maximize their productivity with actionable, personalized advice.''
            @ nl @ nl @ ''User Profile:'' @ nl
            @ ''- Name: Alice Doe'' @ nl
            @ ''- Occupation: Engineer'' @ nl
            @ ''- Goals: Ship the release'' @ nl @ nl
            @ ''Recent Activities This Week:'' @ nl
            @ ''2026-02-07: Run (exercise, 45min, pending)'' @ nl
            @ ''2026-02-07: Code review (work, 30min, done)'' @ nl @ nl
            @ ''Recent Scores: 2026-02-04: Score 60/100, 2026-02-02: Score 80/100'' @ nl @ nl
            @ ''Guidelines:'' @ nl
            @ ''- Be encouraging but honest'' @ nl
            @ ''- Give specific, actionable advice'' @ nl
            @ ''- Reference their actual activities and scores when relevant'' @ nl
            @ ''- Keep responses concise (2-4 sentences unless they ask for detailed plans)'' @ nl
            @ ''- Use their name occasionally for a personal touch'')
           # map (\<lambda>i. (if i mod 2 = 1 then ''user'' else ''assistant'', ''turn '' @ decimal i))
               [6..25]
           @ [(''user'', ''How was my week?'')]]"
proof -
  have c1: "isoDate 1770552000000 = ymd 2026 2 8"
    by (simp add: isoDate_def Day_def msPerDay_def ymd_examples)
  have c2: "weekdayOf (ymd 2026 2 8) = 0" "weekdayOf (ymd 2026 2 2) = 1"
    by (simp_all add: ymd_examples weekdayOf_eq)
  have c3: "map (\<lambda>e. (e_userId e, e_title e, e_date e)) (productivityEntries sundayEntryDb)
       = [(1, ''Code review'', ymd 2026 2 7), (1, ''Run'', ymd 2026 2 7),
          (1, ''Walk'', ymd 2026 2 8)]"
    by (simp add: sundayEntryDb_def exampleEntries_def)
  have c4: "getWeekBounds (LocalTZA exampleEnv) 1770552000000 None
      = (ymd 2026 2 2, ymd 2026 2 8)"
    by code_simp
  have c5: "getWeekBounds (LocalTZA eastEnv) 1770552000000 None = (ymd 2026 2 1, ymd 2026 2 7)"
    by code_simp
  have c6: "snd (snd (route_chat eastEnv exampleStream sundayEntryDb 1770552000000 (Some 1)
                  (Some ''How was my week?'')))
       = [(''system'',
            ''You are an expert productivity coach. You help users maximize their productivity with actionable, personalized advice.''
            @ nl @ nl @ ''User Profile:'' @ nl
            @ ''- Name: Alice Doe'' @ nl
            @ ''- Occupation: Engineer'' @ nl
            @ ''- Goals: Ship the release'' @ nl @ nl
            @ ''Recent Activities This Week:'' @ nl
            @ ''2026-02-07: Run (exercise, 45min, pending)'' @ nl
            @ ''2026-02-07: Code review (work, 30min, done)'' @ nl @ nl
            @ ''Recent Scores: 2026-02-04: Score 60/100, 2026-02-02: Score 80/100'' @ nl @ nl
            @ ''Guidelines:'' @ nl
            @ ''- Be encouraging but honest'' @ nl
            @ ''- Give specific, actionable advice'' @ nl
            @ ''- Reference their actual activities and scores when relevant'' @ nl
            @ ''- Keep responses concise (2-4 sentences unless they ask for detailed plans)'' @ nl
            @ ''- Use their name occasionally for a personal touch'')
           # map (\<lambda>i. (if i mod 2 = 1 then ''user'' else ''assistant'', ''turn '' @ decimal i))
               [6..25]
           @ [(''user'', ''How was my week?'')]]"
    by code_simp
  show ?thesis
    by (intro conjI) (fact c1 c2 c3 c4 c5 c6)+
qed

subsection \<open>Authentication responses\<close>

lemma safeUser_keys:
  "map fst (safeUser a u) =
     [''id'', ''username'', ''email'', ''fullName'', ''occupation'', ''goals'', ''createdAt'']"
  by (simp add: safeUser_def userObject_def)

lemma safeUser_lookup:
  "map_of (safeUser a u) k = (if k = ''password'' then None else map_of (userObject a u) k)"
  by (simp add: safeUser_def userObject_def)

lemma hasKey_message: "\<not> hasKey ''password'' (Response status (message_body m))"
  by (simp add: message_body_def)

lemma safeUser_no_password: "''password'' \<notin> fst ` set (safeUser a u)"
  by (simp add: safeUser_def userObject_def)

lemma hasKey_safeUser: "\<not> hasKey ''password'' (Response status (JObj (safeUser a u)))"
  by (simp add: safeUser_no_password)

lemma route_register_no_password:
  "\<not> hasKey ''password'' (fst (route_register a d now session parsed))"
proof (cases parsed)
  case (Inl errors)
  then show ?thesis by (simp add: route_register_def)
next
  case (Inr data)
  show ?thesis
  proof (cases "getUserByUsername d (iu_username data)")
    case (Some existing)
    with Inr show ?thesis by (simp add: route_register_def hasKey_message)
  next
    case None
    obtain r d' where c: "createUser a d now data = (r, d')"
      by (cases "createUser a d now data")
    show ?thesis
      using Inr None c
      by (cases r) (simp_all add: route_register_def hasKey_message safeUser_no_password)
  qed
qed

lemma route_login_no_password:
  "\<not> hasKey ''password'' (fst (route_login a d session parsed))"
  by (simp add: route_login_def hasKey_message safeUser_no_password
      split: option.splits prod.splits)

lemma route_me_no_password: "\<not> hasKey ''password'' (route_me a d session)"
  by (simp add: route_me_def hasKey_message safeUser_no_password split: option.splits)

lemma find_None_list_ex: "(find P xs = None) = (\<not> list_ex P xs)"
  by (induction xs) auto

lemma route_register_success:
  assumes "getUserByUsername d (iu_username data) = None"
    and "\<not> list_ex (\<lambda>u. u_email u = iu_email data) (users d)"
    and "user = \<lparr> u_id = users_seq d, u_username = iu_username data, u_email = iu_email data,
           u_password = bcrypt_hash a (iu_password data), u_fullName = iu_fullName data,
           u_occupation = iu_occupation data, u_goals = iu_goals data, u_createdAt = now \<rparr>"
  shows "route_register a d now session (Inr data) =
    (Response 201 (JObj (safeUser a user)),
     d\<lparr>users := users d @ [user], users_seq := users_seq d + 1\<rparr>, Some (u_id user))"
proof -
  have "\<not> list_ex (\<lambda>u. u_username u = iu_username data) (users d)"
    using assms(1) by (simp add: getUserByUsername_def find_None_list_ex)
  then show ?thesis
    using assms by (simp add: route_register_def createUser_def Let_def)
qed

lemma route_login_success:
  assumes "getUserByUsername d username = Some user"
    and "bcrypt_compare a password (u_password user)"
  shows "route_login a d session (Some (username, password)) =
    (Response 200 (JObj (safeUser a user)), Some (u_id user))"
  using assms by (simp add: route_login_def verifyPassword_def)

lemma route_me_success:
  assumes "userId \<noteq> 0" "getUserById d userId = Some user"
  shows "route_me a d (Some userId) = Response 200 (JObj (safeUser a user))"
  using assms by (simp add: route_me_def)

text \<open>
  Claim C10.  No response of register, login or session check is an object with the key
  \<open>password\<close>.  When register creates the user, when login finds the user and the
  password verifies, and when the session's user exists, the body is the object of that
  user row with the key \<open>password\<close> removed: its keys are the seven other columns,
  and each has the value it has in the row.
\<close>

theorem auth_responses_omit_password:
  "\<not> hasKey ''password'' (fst (route_register a d now session parsed))
   \<and> \<not> hasKey ''password'' (fst (route_login a d session login))
   \<and> \<not> hasKey ''password'' (route_me a d session)
   \<and> (getUserByUsername d (iu_username data) = None
        \<and> \<not> list_ex (\<lambda>u. u_email u = iu_email data) (users d) \<longrightarrow>
        fst (route_register a d now session (Inr data)) =
          Response 201 (JObj (safeUser a
            \<lparr> u_id = users_seq d, u_username = iu_username data, u_email = iu_email data,
              u_password = bcrypt_hash a (iu_password data), u_fullName = iu_fullName data,
              u_occupation = iu_occupation data, u_goals = iu_goals data,
              u_createdAt = now \<rparr>)))
   \<and> (getUserByUsername d username = Some user \<and> bcrypt_compare a password (u_password user)
        \<longrightarrow> fst (route_login a d session (Some (username, password)))
              = Response 200 (JObj (safeUser a user)))
   \<and> (userId \<noteq> 0 \<and> getUserById d userId = Some user' \<longrightarrow>
        route_me a d (Some userId) = Response 200 (JObj (safeUser a user')))
   \<and> map fst (safeUser a user'') =
        [''id'', ''username'', ''email'', ''fullName'', ''occupation'', ''goals'', ''createdAt'']
   \<and> (\<forall>k. map_of (safeUser a user'') k =
          (if k = ''password'' then None else map_of (userObject a user'') k))"
proof -
  have c4: "getUserByUsername d (iu_username data) = None
        \<and> \<not> list_ex (\<lambda>u. u_email u = iu_email data) (users d) \<longrightarrow>
        fst (route_register a d now session (Inr data)) =
          Response 201 (JObj (safeUser a
            \<lparr> u_id = users_seq d, u_username = iu_username data, u_email = iu_email data,
              u_password = bcrypt_hash a (iu_password data), u_fullName = iu_fullName data,
              u_occupation = iu_occupation data, u_goals = iu_goals data,
              u_createdAt = now \<rparr>))"
    using route_register_success [where a = a and d = d and now = now and session = session
        and data = data, OF _ _ refl]
    by simp
  have c5: "getUserByUsername d username = Some user \<and> bcrypt_compare a password (u_password user)
        \<longrightarrow> fst (route_login a d session (Some (username, password)))
              = Response 200 (JObj (safeUser a user))"
    using route_login_success [where a = a and d = d and session = session] by simp
  have c6: "userId \<noteq> 0 \<and> getUserById d userId = Some user' \<longrightarrow>
        route_me a d (Some userId) = Response 200 (JObj (safeUser a user'))"
    using route_me_success by blast
  have c8: "\<forall>k. map_of (safeUser a user'') k =
          (if k = ''password'' then None else map_of (userObject a user'') k)"
    using safeUser_lookup by blast
  show ?thesis
    by (intro conjI) (fact route_register_no_password route_login_no_password
        route_me_no_password c4 c5 c6 safeUser_keys c8)+
qed

lemma auth_example:
  "getUserByUsername exampleDb (iu_username bob) = None"
  "\<not> list_ex (\<lambda>u. u_email u = iu_email bob) (users exampleDb)"
  "getUserByUsername exampleDb ''alice'' = Some alice"
  "bcrypt_compare exampleAuth ''hsah'' (u_password alice)"
  "getUserById exampleDb 1 = Some alice"
  "map_of (userObject exampleAuth alice) ''password'' = Some (JStr ''$2b$10$hash'')"
  by (simp_all add: getUserByUsername_def getUserById_def exampleDb_def alice_def bob_def
      exampleAuth_def userObject_def)

lemma example_created: "exampleDateString (Day 1770462000000) = ''2026-02-07''"
  by code_simp

theorem auth_responses_omit_password_witness:
  "getUserByUsername exampleDb (iu_username bob) = None
   \<and> \<not> list_ex (\<lambda>u. u_email u = iu_email bob) (users exampleDb)
   \<and> fst (route_register exampleAuth exampleDb 1770462000000 None (Inr bob)) =
       Response 201 (JObj [(''id'', JNum (Fin 2)), (''username'', JStr ''bob''),
         (''email'', JStr ''bob@example.org''), (''fullName'', JStr ''Bob Roe''),
         (''occupation'', JStr ''Writer''), (''goals'', JStr ''Finish the draft''),
         (''createdAt'', JStr ''2026-02-07'')])
   \<and> getUserByUsername exampleDb ''alice'' = Some alice
   \<and> bcrypt_compare exampleAuth ''hsah'' (u_password alice)
   \<and> fst (route_login exampleAuth exampleDb None (Some (''alice'', ''hsah'')))
       = Response 200 (JObj (safeUser exampleAuth alice))
   \<and> (1::int) \<noteq> 0
   \<and> getUserById exampleDb 1 = Some alice
   \<and> route_me exampleAuth exampleDb (Some 1) = Response 200 (JObj (safeUser exampleAuth alice))
   \<and> map_of (userObject exampleAuth alice) ''password'' = Some (JStr ''$2b$10$hash'')
   \<and> map_of (safeUser exampleAuth alice) ''password'' = None
   \<and> \<not> hasKey ''password'' (route_me exampleAuth exampleDb (Some 1))"
proof -
  note t = auth_responses_omit_password [where a = exampleAuth and d = exampleDb
      and now = 1770462000000 and session = "Some 1" and data = bob and username = "''alice''"
      and password = "''hsah''" and user = alice and userId = 1 and user' = alice
      and user'' = alice]
  note t4 = t [THEN conjunct2, THEN conjunct2, THEN conjunct2]
  have new: "safeUser exampleAuth
      \<lparr> u_id = users_seq exampleDb, u_username = iu_username bob, u_email = iu_email bob,
        u_password = bcrypt_hash exampleAuth (iu_password bob), u_fullName = iu_fullName bob,
        u_occupation = iu_occupation bob, u_goals = iu_goals bob,
        u_createdAt = 1770462000000 \<rparr>
      = [(''id'', JNum (Fin 2)), (''username'', JStr ''bob''),
         (''email'', JStr ''bob@example.org''), (''fullName'', JStr ''Bob Roe''),
         (''occupation'', JStr ''Writer''), (''goals'', JStr ''Finish the draft''),
         (''createdAt'', JStr ''2026-02-07'')]"
    by (simp add: safeUser_def userObject_def exampleAuth_def bob_def exampleDb_def
        example_created)
  have r: "fst (route_register exampleAuth exampleDb 1770462000000 None (Inr bob)) =
       Response 201 (JObj [(''id'', JNum (Fin 2)), (''username'', JStr ''bob''),
         (''email'', JStr ''bob@example.org''), (''fullName'', JStr ''Bob Roe''),
         (''occupation'', JStr ''Writer''), (''goals'', JStr ''Finish the draft''),
         (''createdAt'', JStr ''2026-02-07'')])"
    using auth_responses_omit_password [where a = exampleAuth and d = exampleDb
      and now = 1770462000000 and session = None and data = bob, THEN conjunct2,
      THEN conjunct2, THEN conjunct2, THEN conjunct1] auth_example(1,2)
    unfolding new by simp
  have l: "fst (route_login exampleAuth exampleDb None (Some (''alice'', ''hsah'')))
       = Response 200 (JObj (safeUser exampleAuth alice))"
    using auth_responses_omit_password [where a = exampleAuth and d = exampleDb
      and session = None and username = "''alice''" and password = "''hsah''" and user = alice,
      THEN conjunct2, THEN conjunct2, THEN conjunct2, THEN conjunct2, THEN conjunct1]
      auth_example(3,4)
    by simp
  have u: "(1::int) \<noteq> 0" by simp
  have m: "route_me exampleAuth exampleDb (Some 1) = Response 200 (JObj (safeUser exampleAuth alice))"
    using t4 [THEN conjunct2, THEN conjunct2, THEN conjunct1] auth_example(5) by simp
  have p: "map_of (safeUser exampleAuth alice) ''password'' = None"
    using t4 [THEN conjunct2, THEN conjunct2, THEN conjunct2, THEN conjunct2] by simp
  have h: "\<not> hasKey ''password'' (route_me exampleAuth exampleDb (Some 1))"
    using t [THEN conjunct2, THEN conjunct2, THEN conjunct1] by simp
  show ?thesis
    by (intro conjI) (fact auth_example r l u m p h)+
qed

subsection \<open>One row per key\<close>

lemma saveDailyScore_weeklyScores:
  "weeklyScores (snd (saveDailyScore d now u dt s i)) = weeklyScores d"
  by (cases "list_ex (\<lambda>r. ds_userId r = u \<and> ds_date r = dt) (dailyScores d)")
     (simp_all add: saveDailyScore_update saveDailyScore_insert)

lemma refreshWeekly_weeklyKeys:
  assumes "distinct (map weeklyKey (weeklyScores d))"
  shows "distinct (map weeklyKey (weeklyScores (refreshWeekly env d now u dt)))"
  using assms by (simp add: refreshWeekly_eq Let_def saveWeeklyScore_keys)

lemma route_scoreDaily_store:
  "fst (snd (route_scoreDaily env ai d now session bodyDate)) = d
   \<or> (\<exists>u dt s i. fst (snd (route_scoreDaily env ai d now session bodyDate))
          = refreshWeekly env (snd (saveDailyScore d now u dt s i)) now u dt)"
  unfolding route_scoreDaily_def requireAuth_def Let_def
  by (auto split: option.splits completion.splits sum.splits)

lemma route_scoreDaily_dailyKeys:
  assumes "distinct (map dailyKey (dailyScores d))"
  shows "distinct (map dailyKey
           (dailyScores (fst (snd (route_scoreDaily env ai d now session bodyDate)))))"
proof -
  let ?r = "fst (snd (route_scoreDaily env ai d now session bodyDate))"
  consider (same) "?r = d"
    | (saved) u dt s i where "?r = refreshWeekly env (snd (saveDailyScore d now u dt s i)) now u dt"
    using route_scoreDaily_store [of env ai d now session bodyDate] by blast
  then show ?thesis
  proof cases
    case same
    with assms show ?thesis by simp
  next
    case saved
    with assms show ?thesis
      by (simp add: refreshWeekly_dailyScores saveDailyScore_keys)
  qed
qed

lemma route_scoreDaily_weeklyKeys:
  assumes "distinct (map weeklyKey (weeklyScores d))"
  shows "distinct (map weeklyKey
           (weeklyScores (fst (snd (route_scoreDaily env ai d now session bodyDate)))))"
proof -
  let ?r = "fst (snd (route_scoreDaily env ai d now session bodyDate))"
  consider (same) "?r = d"
    | (saved) u dt s i where "?r = refreshWeekly env (snd (saveDailyScore d now u dt s i)) now u dt"
    using route_scoreDaily_store [of env ai d now session bodyDate] by blast
  then show ?thesis
  proof cases
    case same
    with assms show ?thesis by simp
  next
    case saved
    have "distinct (map weeklyKey (weeklyScores (snd (saveDailyScore d now u dt s i))))"
      using assms by (simp add: saveDailyScore_weeklyScores)
    then show ?thesis
      unfolding saved by (rule refreshWeekly_weeklyKeys)
  qed
qed

text \<open>
  Claim C3.  Saving a daily score for a (user, date) pair that has a row leaves the keys and
  the identifiers of the rows as they were (no row is added) and, in every case, each row
  of the pair then holds the score and insight saved and the pair has a row; so a table
  in which no pair has two rows stays so, and the empty table is one.  The same holds for
  weekly scores and the pair (user, week start).  The scoring route, the only caller of
  the two functions, keeps both tables so.
\<close>

theorem upsert_one_row_per_key:
  "((u, dt) \<in> set (map dailyKey (dailyScores d)) \<longrightarrow>
      map dailyKey (dailyScores (snd (saveDailyScore d now u dt s i)))
        = map dailyKey (dailyScores d)
      \<and> map ds_id (dailyScores (snd (saveDailyScore d now u dt s i)))
        = map ds_id (dailyScores d))
   \<and> (\<forall>r \<in> set (dailyScores (snd (saveDailyScore d now u dt s i))).
        dailyKey r = (u, dt) \<longrightarrow> ds_score r = s \<and> ds_aiInsight r = i)
   \<and> (u, dt) \<in> set (map dailyKey (dailyScores (snd (saveDailyScore d now u dt s i))))
   \<and> (distinct (map dailyKey (dailyScores d)) \<longrightarrow>
        distinct (map dailyKey (dailyScores (snd (saveDailyScore d now u dt s i)))))
   \<and> ((u, ws) \<in> set (map weeklyKey (weeklyScores d)) \<longrightarrow>
        map weeklyKey (weeklyScores (snd (saveWeeklyScore d now u ws we a n)))
          = map weeklyKey (weeklyScores d)
        \<and> map ws_id (weeklyScores (snd (saveWeeklyScore d now u ws we a n)))
          = map ws_id (weeklyScores d))
   \<and> (\<forall>r \<in> set (weeklyScores (snd (saveWeeklyScore d now u ws we a n))).
        weeklyKey r = (u, ws) \<longrightarrow> ws_avgScore r = a \<and> ws_totalEntries r = n)
   \<and> (u, ws) \<in> set (map weeklyKey (weeklyScores (snd (saveWeeklyScore d now u ws we a n))))
   \<and> (distinct (map weeklyKey (weeklyScores d)) \<longrightarrow>
        distinct (map weeklyKey (weeklyScores (snd (saveWeeklyScore d now u ws we a n)))))
   \<and> distinct (map dailyKey (dailyScores emptyDb))
   \<and> distinct (map weeklyKey (weeklyScores emptyDb))
   \<and> (distinct (map dailyKey (dailyScores d)) \<longrightarrow>
        distinct (map dailyKey
          (dailyScores (fst (snd (route_scoreDaily env ai d now session bodyDate))))))
   \<and> (distinct (map weeklyKey (weeklyScores d)) \<longrightarrow>
        distinct (map weeklyKey
          (weeklyScores (fst (snd (route_scoreDaily env ai d now session bodyDate))))))"
proof -
  let ?d' = "snd (saveDailyScore d now u dt s i)"
  let ?w' = "snd (saveWeeklyScore d now u ws we a n)"
  have d_keys: "map dailyKey (dailyScores ?d') =
     (if (u, dt) \<in> set (map dailyKey (dailyScores d)) then map dailyKey (dailyScores d)
      else map dailyKey (dailyScores d) @ [(u, dt)])"
    by (rule saveDailyScore_keys)
  have w_keys: "map weeklyKey (weeklyScores ?w') =
     (if (u, ws) \<in> set (map weeklyKey (weeklyScores d)) then map weeklyKey (weeklyScores d)
      else map weeklyKey (weeklyScores d) @ [(u, ws)])"
    by (rule saveWeeklyScore_keys)
  have c1: "(u, dt) \<in> set (map dailyKey (dailyScores d)) \<longrightarrow>
      map dailyKey (dailyScores ?d') = map dailyKey (dailyScores d)
      \<and> map ds_id (dailyScores ?d') = map ds_id (dailyScores d)"
  proof
    assume k: "(u, dt) \<in> set (map dailyKey (dailyScores d))"
    then have ex: "list_ex (\<lambda>r. ds_userId r = u \<and> ds_date r = dt) (dailyScores d)"
      by (simp only: list_ex_dailyKey)
    have "map ds_id (dailyScores ?d') = map ds_id (dailyScores d)"
      by (simp add: saveDailyScore_update [OF ex] o_def if_distrib cong: if_cong)
    with k d_keys show "map dailyKey (dailyScores ?d') = map dailyKey (dailyScores d)
      \<and> map ds_id (dailyScores ?d') = map ds_id (dailyScores d)"
      by simp
  qed
  have c2: "\<forall>r \<in> set (dailyScores ?d').
        dailyKey r = (u, dt) \<longrightarrow> ds_score r = s \<and> ds_aiInsight r = i"
    using saveDailyScore_values by blast
  have c3: "(u, dt) \<in> set (map dailyKey (dailyScores ?d'))"
    unfolding d_keys by simp
  have c4: "distinct (map dailyKey (dailyScores d)) \<longrightarrow>
        distinct (map dailyKey (dailyScores ?d'))"
    unfolding d_keys by simp
  have c5: "(u, ws) \<in> set (map weeklyKey (weeklyScores d)) \<longrightarrow>
        map weeklyKey (weeklyScores ?w') = map weeklyKey (weeklyScores d)
        \<and> map ws_id (weeklyScores ?w') = map ws_id (weeklyScores d)"
  proof
    assume k: "(u, ws) \<in> set (map weeklyKey (weeklyScores d))"
    then have ex: "list_ex (\<lambda>r. ws_userId r = u \<and> ws_weekStart r = ws) (weeklyScores d)"
      by (simp only: list_ex_weeklyKey)
    have "map ws_id (weeklyScores ?w') = map ws_id (weeklyScores d)"
      by (simp add: saveWeeklyScore_update [OF ex] o_def if_distrib cong: if_cong)
    with k w_keys show "map weeklyKey (weeklyScores ?w') = map weeklyKey (weeklyScores d)
        \<and> map ws_id (weeklyScores ?w') = map ws_id (weeklyScores d)"
      by simp
  qed
  have c6: "\<forall>r \<in> set (weeklyScores ?w').
        weeklyKey r = (u, ws) \<longrightarrow> ws_avgScore r = a \<and> ws_totalEntries r = n"
    using saveWeeklyScore_values by blast
  have c7: "(u, ws) \<in> set (map weeklyKey (weeklyScores ?w'))"
    unfolding w_keys by simp
  have c8: "distinct (map weeklyKey (weeklyScores d)) \<longrightarrow>
        distinct (map weeklyKey (weeklyScores ?w'))"
    unfolding w_keys by simp
  have c9: "distinct (map dailyKey (dailyScores emptyDb))"
    and c10: "distinct (map weeklyKey (weeklyScores emptyDb))"
    by (simp_all add: emptyDb_def)
  have c11: "distinct (map dailyKey (dailyScores d)) \<longrightarrow>
      distinct (map dailyKey
        (dailyScores (fst (snd (route_scoreDaily env ai d now session bodyDate)))))"
    using route_scoreDaily_dailyKeys by blast
  have c12: "distinct (map weeklyKey (weeklyScores d)) \<longrightarrow>
      distinct (map weeklyKey
        (weeklyScores (fst (snd (route_scoreDaily env ai d now session bodyDate)))))"
    using route_scoreDaily_weeklyKeys by blast
  show ?thesis
    by (intro conjI) (fact c1 c2 c3 c4 c5 c6 c7 c8 c9 c10 c11 c12)+
qed


theorem upsert_one_row_per_key_witness:
  "(1, ymd 2026 2 4) \<in> set (map dailyKey (dailyScores exampleDb))
   \<and> distinct (map dailyKey (dailyScores exampleDb))
   \<and> map dailyKey (dailyScores (snd (saveDailyScore exampleDb 0 1 (ymd 2026 2 4) 75 (JStr ''Better.''))))
       = map dailyKey (dailyScores exampleDb)
   \<and> map ds_id (dailyScores (snd (saveDailyScore exampleDb 0 1 (ymd 2026 2 4) 75 (JStr ''Better.''))))
       = [1, 2]
   \<and> distinct (map dailyKey
        (dailyScores (snd (saveDailyScore exampleDb 0 1 (ymd 2026 2 4) 75 (JStr ''Better.'')))))
   \<and> (1, ymd 2026 2 2) \<in> set (map weeklyKey (weeklyScores exampleDb))
   \<and> distinct (map weeklyKey (weeklyScores exampleDb))
   \<and> map ws_id (weeklyScores
        (snd (saveWeeklyScore exampleDb 0 1 (ymd 2026 2 2) (ymd 2026 2 8) (215 / 3) 3))) = [1]
   \<and> distinct (map weeklyKey (weeklyScores
        (snd (saveWeeklyScore exampleDb 0 1 (ymd 2026 2 2) (ymd 2026 2 8) (215 / 3) 3))))"
proof -
  have dk: "map dailyKey (dailyScores exampleDb) = [(1, 20486), (1, 20488)]"
    and di: "map ds_id (dailyScores exampleDb) = [1, 2]"
    by (simp_all add: exampleDb_def exampleDaily_def dailyKey_def ymd_examples)
  have wk: "map weeklyKey (weeklyScores exampleDb) = [(1, 20486)]"
    and wi: "map ws_id (weeklyScores exampleDb) = [1]"
    by (simp_all add: exampleDb_def exampleWeekly_def weeklyKey_def ymd_examples)
  have d1: "(1, ymd 2026 2 4) \<in> set (map dailyKey (dailyScores exampleDb))"
    and d2: "distinct (map dailyKey (dailyScores exampleDb))"
    unfolding dk by (simp_all add: ymd_examples)
  have w1: "(1, ymd 2026 2 2) \<in> set (map weeklyKey (weeklyScores exampleDb))"
    and w2: "distinct (map weeklyKey (weeklyScores exampleDb))"
    unfolding wk by (simp_all add: ymd_examples)
  show ?thesis
    using upsert_one_row_per_key [of 1 "ymd 2026 2 4" exampleDb 0 75 "JStr ''Better.''"
        "ymd 2026 2 2" "ymd 2026 2 8" "215 / 3" 3 exampleEnv "\<lambda>p. Throws" "Some 1" None]
      d1 d2 w1 w2 di wi
    by simp
qed

end
